theory Spec2Isabelle
  imports Complex_Main
begin

section \<open>Values held by spreadsheet cells and form fields\<close>

text \<open>
  The scripts read a sheet with \<^verbatim>\<open>getDataRange().getValues()\<close>: a list of rows, each a
  list of cell values, the first row being the header row. A cell value is a string, a
  number, a Date object, or (when the script indexes past the end of a row or through a
  missing column name) \<^verbatim>\<open>undefined\<close>. Numbers are modelled as exact rationals: the
  arithmetic of the scripts is carried out without the rounding of IEEE doubles. Text is
  modelled as 8-bit strings; white space and letter case are those of ASCII. A Date object
  is identified by the text it was constructed from.
\<close>

datatype cell = Str string | Num rat | DateC string | Undef

type_synonym row = "cell list"
type_synonym sheet_table = "row list"

definition is_ws :: "char \<Rightarrow> bool" where
  "is_ws c = (c = CHR '' '' \<or> c = CHR 0x09 \<or> c = CHR 0x0A \<or> c = CHR 0x0B
              \<or> c = CHR 0x0C \<or> c = CHR 0x0D)"

text \<open>\<^verbatim>\<open>String.prototype.trim\<close>.\<close>

definition js_trim :: "string \<Rightarrow> string" where
  "js_trim s = rev (dropWhile is_ws (rev (dropWhile is_ws s)))"

definition lower_char :: "char \<Rightarrow> char" where
  "lower_char c =
     (case map_of (zip ''ABCDEFGHIJKLMNOPQRSTUVWXYZ'' ''abcdefghijklmnopqrstuvwxyz'') c of
        Some d \<Rightarrow> d
      | None \<Rightarrow> c)"

text \<open>\<^verbatim>\<open>String.prototype.toLowerCase\<close>.\<close>

definition toLowerCase :: "string \<Rightarrow> string" where
  "toLowerCase s = map lower_char s"

text \<open>Truthiness of a value, as tested by \<^verbatim>\<open>if (x)\<close>, \<^verbatim>\<open>!x\<close> and \<^verbatim>\<open>x || d\<close>.\<close>

fun truthy :: "cell \<Rightarrow> bool" where
  "truthy (Str s) = (s \<noteq> [])"
| "truthy (Num q) = (q \<noteq> 0)"
| "truthy (DateC d) = True"
| "truthy Undef = False"

text \<open>\<^verbatim>\<open>x || d\<close>.\<close>

definition js_or :: "cell \<Rightarrow> cell \<Rightarrow> cell" where
  "js_or x d = (if truthy x then x else d)"

subsection \<open>Printing numbers\<close>

fun digits_of :: "nat \<Rightarrow> string" where
  "digits_of n =
     (if n < 10 then [''0123456789'' ! n]
      else digits_of (n div 10) @ [''0123456789'' ! (n mod 10)])"

declare digits_of.simps [simp del]

text \<open>
  The fractional digits of a number in \<open>[0, 1)\<close>, by long division, at most \<open>k\<close> of them.
\<close>

fun frac_digits :: "nat \<Rightarrow> rat \<Rightarrow> string" where
  "frac_digits 0 q = []"
| "frac_digits (Suc k) q =
     (if q = 0 then []
      else (''0123456789'' ! nat \<lfloor>q * 10\<rfloor>) # frac_digits k (q * 10 - of_int \<lfloor>q * 10\<rfloor>))"

text \<open>
  \<^verbatim>\<open>Number.prototype.toString\<close> in the range where JavaScript prints plain decimal
  notation: the integer part, then the fractional digits if there are any.
\<close>

definition num_to_string :: "rat \<Rightarrow> string" where
  "num_to_string q =
     (let a = \<bar>q\<bar>; ip = nat \<lfloor>a\<rfloor>; fr = a - of_int \<lfloor>a\<rfloor>
      in (if q < 0 then ''-'' else '''') @ digits_of ip @
         (if fr = 0 then '''' else ''.'' @ frac_digits 17 fr))"

text \<open>
  \<^verbatim>\<open>x.toString()\<close>. It raises a TypeError on \<^verbatim>\<open>undefined\<close>, which is the value
  \<open>None\<close> here.
\<close>

fun toString :: "cell \<Rightarrow> string option" where
  "toString (Str s) = Some s"
| "toString (Num q) = Some (num_to_string q)"
| "toString (DateC d) = Some (''Date '' @ d)"
| "toString Undef = None"

text \<open>Indexing a row: out of range reads give \<^verbatim>\<open>undefined\<close>.\<close>

definition cell_at :: "row \<Rightarrow> nat \<Rightarrow> cell" where
  "cell_at r i = (if i < length r then r ! i else Undef)"

text \<open>
  Indexing with a column index that may itself be \<^verbatim>\<open>undefined\<close> (a name missing from
  the index map) or \<open>-1\<close> (a failed \<^verbatim>\<open>indexOf\<close>): both read \<^verbatim>\<open>undefined\<close>.
\<close>

definition cell_at_opt :: "row \<Rightarrow> nat option \<Rightarrow> cell" where
  "cell_at_opt r io = (case io of None \<Rightarrow> Undef | Some i \<Rightarrow> cell_at r i)"

text \<open>
  The key under which a header cell is entered in the index map
  (\<^verbatim>\<open>acc[h] = i\<close> converts \<open>h\<close> to a property name).
\<close>

fun key_of :: "cell \<Rightarrow> string" where
  "key_of (Str s) = s"
| "key_of (Num q) = num_to_string q"
| "key_of (DateC d) = ''Date '' @ d"
| "key_of Undef = ''undefined''"

text \<open>
  \<^verbatim>\<open>headers.reduce((acc, h, i) => { acc[h] = i; return acc; }, {})\<close> followed by a lookup
  \<^verbatim>\<open>indexMap[name]\<close>: a later column with the same name overwrites an earlier one.
\<close>

fun indexMap_from :: "nat \<Rightarrow> row \<Rightarrow> string \<Rightarrow> nat option" where
  "indexMap_from i [] name = None"
| "indexMap_from i (h # hs) name =
     (case indexMap_from (Suc i) hs name of
        Some j \<Rightarrow> Some j
      | None \<Rightarrow> (if key_of h = name then Some i else None))"

definition indexMap :: "row \<Rightarrow> string \<Rightarrow> nat option" where
  "indexMap headers name = indexMap_from 0 headers name"

text \<open>\<^verbatim>\<open>headers.indexOf(name)\<close>: the first cell strictly equal to the string, if any.\<close>

fun indexOf_from :: "nat \<Rightarrow> row \<Rightarrow> string \<Rightarrow> nat option" where
  "indexOf_from i [] name = None"
| "indexOf_from i (h # hs) name =
     (if h = Str name then Some i else indexOf_from (Suc i) hs name)"

definition indexOf :: "row \<Rightarrow> string \<Rightarrow> nat option" where
  "indexOf headers name = indexOf_from 0 headers name"

text \<open>The check \<^verbatim>\<open>!id || id.toString().trim() === ""\<close> that opens every by-id operation.\<close>

definition invalid_id :: "cell \<Rightarrow> bool" where
  "invalid_id i =
     (if truthy i then (case toString i of None \<Rightarrow> True | Some s \<Rightarrow> js_trim s = [])
      else True)"

subsection \<open>Reading numbers\<close>

definition is_digit :: "char \<Rightarrow> bool" where
  "is_digit c = (c \<in> set ''0123456789'')"

definition digit_val :: "char \<Rightarrow> nat" where
  "digit_val c = length (takeWhile (\<lambda>d. d \<noteq> c) ''0123456789abcdef'')"

definition nat_of_digits :: "nat \<Rightarrow> string \<Rightarrow> nat" where
  "nat_of_digits base ds = foldl (\<lambda>a c. base * a + digit_val c) 0 ds"

definition scale10 :: "rat \<Rightarrow> int \<Rightarrow> rat" where
  "scale10 m e = (if 0 \<le> e then m * 10 ^ nat e else m / 10 ^ nat (- e))"

text \<open>
  An exponent part \<^verbatim>\<open>e[+-]digits\<close> at the head of the text, if there is one: its value and
  the rest of the text.
\<close>

definition scan_exponent :: "string \<Rightarrow> int \<times> string" where
  "scan_exponent r =
     (case r of
        [] \<Rightarrow> (0, r)
      | c # r1 \<Rightarrow>
          if c = CHR ''e'' \<or> c = CHR ''E'' then
            (let neg = (r1 \<noteq> [] \<and> hd r1 = CHR ''-'');
                 r2 = (if r1 \<noteq> [] \<and> (hd r1 = CHR ''-'' \<or> hd r1 = CHR ''+'') then tl r1 else r1);
                 ds = takeWhile is_digit r2
             in if ds = [] then (0, r)
                else ((if neg then - int (nat_of_digits 10 ds) else int (nat_of_digits 10 ds)),
                      dropWhile is_digit r2))
          else (0, r))"

text \<open>
  The longest unsigned decimal literal (digits, an optional fraction, an optional exponent)
  at the head of the text: its value and the rest of the text; \<open>None\<close> when the text
  starts with no such literal.
\<close>

definition scan_unsigned :: "string \<Rightarrow> (rat \<times> string) option" where
  "scan_unsigned s =
     (let ip = takeWhile is_digit s;
          r1 = dropWhile is_digit s;
          hasdot = (r1 \<noteq> [] \<and> hd r1 = CHR ''.'');
          fp = (if hasdot then takeWhile is_digit (tl r1) else []);
          r2 = (if hasdot then dropWhile is_digit (tl r1) else r1)
      in if ip = [] \<and> fp = [] then None
         else (let m = of_nat (nat_of_digits 10 ip) + of_nat (nat_of_digits 10 fp) / 10 ^ length fp;
                   er = scan_exponent r2
               in Some (scale10 m (fst er), snd er)))"

definition scan_signed :: "string \<Rightarrow> (rat \<times> string) option" where
  "scan_signed s =
     (case s of
        [] \<Rightarrow> None
      | c # r \<Rightarrow>
          if c = CHR ''-'' then map_option (\<lambda>(v, t). (- v, t)) (scan_unsigned r)
          else if c = CHR ''+'' then scan_unsigned r
          else scan_unsigned s)"

text \<open>
  \<^verbatim>\<open>parseFloat\<close> of a string: leading white space is skipped, the longest decimal literal
  is read and what follows it is ignored. \<open>None\<close> is NaN. (The literal
  \<^verbatim>\<open>Infinity\<close> is not a number of the model.)
\<close>

definition parseFloat_str :: "string \<Rightarrow> rat option" where
  "parseFloat_str s = map_option fst (scan_signed (dropWhile is_ws s))"

fun parseFloat :: "cell \<Rightarrow> rat option" where
  "parseFloat (Str s) = parseFloat_str s"
| "parseFloat (Num q) = Some q"
| "parseFloat (DateC d) = None"
| "parseFloat Undef = None"

text \<open>\<^verbatim>\<open>parseFloat(x) || 0\<close>: NaN and zero both give zero.\<close>

definition parseFloat_or0 :: "cell \<Rightarrow> rat" where
  "parseFloat_or0 c = (case parseFloat c of None \<Rightarrow> 0 | Some q \<Rightarrow> q)"



subsection \<open>Equality\<close>

text \<open>
  \<^verbatim>\<open>a === b\<close>: the same type and the same value; two Date objects are equal only when
  they are the same object, which a cell read from the sheet and a request argument never
  are.
\<close>

fun strict_eq :: "cell \<Rightarrow> cell \<Rightarrow> bool" where
  "strict_eq (Str a) (Str b) = (a = b)"
| "strict_eq (Num a) (Num b) = (a = b)"
| "strict_eq Undef Undef = True"
| "strict_eq _ _ = False"


section \<open>Reading a record back by id\<close>

text \<open>
  The object that the form submits for an invoice and that
  \<^verbatim>\<open>getInvoiceDataByIdFromData\<close> returns. A property that is absent is \<open>Undef\<close>.
  Each line item is an array of cells.
\<close>

record invoice =
  projectName :: cell
  invoiceNumber :: cell
  clientName :: cell
  clientAddress :: cell
  clientNumber :: cell
  invoiceDate :: cell
  dueDate :: cell
  tax :: cell
  subtotal :: cell
  total :: cell
  exchangeRate :: cell
  currency :: cell
  amountInEUR :: cell
  bankDetails1 :: cell
  bankDetails2 :: cell
  ourCompany :: cell
  comment :: cell
  items :: "cell list list"

text \<open>The object returned by \<^verbatim>\<open>getCreditNoteDataByIdFromData\<close>.\<close>

record credit_note =
  cn_projectName :: cell
  cn_creditNoteNumber :: cell
  cn_clientName :: cell
  cn_clientAddress :: cell
  cn_clientNumber :: cell
  cn_creditNoteDate :: cell
  cn_tax :: cell
  cn_subtotal :: cell
  cn_total :: cell
  cn_exchangeRate :: cell
  cn_currency :: cell
  cn_amountInEUR :: cell
  cn_ourCompany :: cell
  cn_comment :: cell
  cn_items :: "cell list list"

text \<open>
  The test \<^verbatim>\<open>cell && cell.toString().trim() !== ""\<close> that decides whether a slot of the
  item block holds an item.
\<close>

definition nonblank :: "cell \<Rightarrow> bool" where
  "nonblank c =
     (if truthy c then (case toString c of None \<Rightarrow> False | Some s \<Rightarrow> js_trim s \<noteq> [])
      else False)"

text \<open>\<^verbatim>\<open>row.slice(base, base + n)\<close>.\<close>

definition slice :: "'a list \<Rightarrow> nat \<Rightarrow> nat \<Rightarrow> 'a list" where
  "slice r base n = take n (drop base r)"

text \<open>
  The loop that parses the item block of a stored row: slot \<open>i\<close> starts at column
  \<open>start + i * cpr\<close>, and a slot is kept when one of its cells is not blank. The invoice
  reader calls it with \<open>start = 21\<close> and the configured
  \<^verbatim>\<open>CONFIG.INVOICE_TABLE.MAX_ROWS\<close> and \<^verbatim>\<open>COLUMNS_PER_ROW\<close>, which are parameters; the
  credit-note reader with \<open>start = 18\<close>, four columns and
  \<^verbatim>\<open>CONFIG.CREDIT_NOTE_TABLE.MAX_ROWS\<close>.
\<close>

definition parse_items :: "nat \<Rightarrow> nat \<Rightarrow> nat \<Rightarrow> row \<Rightarrow> cell list list" where
  "parse_items start max_rows cpr r =
     filter (list_ex nonblank) (map (\<lambda>i. slice r (start + i * cpr) cpr) [0..<max_rows])"

text \<open>
  The row search of \<^verbatim>\<open>getInvoiceDataByIdFromData\<close>:
  \<^verbatim>\<open>if (data[i][indexMap["ID"]] === id) { row = data[i]; break; }\<close>.
\<close>

definition find_row_strict :: "nat option \<Rightarrow> cell \<Rightarrow> row list \<Rightarrow> row option" where
  "find_row_strict idCol i rows = find (\<lambda>r. strict_eq (cell_at_opt r idCol) i) rows"

text \<open>
  \<^verbatim>\<open>getInvoiceDataByIdFromData(id)\<close> on the table of the invoice sheet. The empty object
  \<^verbatim>\<open>{}\<close> that the function returns for an invalid id, for an id that is not found and
  from its catch block is \<open>None\<close>. \<open>fmtDate\<close> is \<^verbatim>\<open>formatDateForInput\<close>, whose
  code is outside these sources.
\<close>

definition invoice_of_row :: "nat \<Rightarrow> nat \<Rightarrow> (cell \<Rightarrow> cell) \<Rightarrow> row \<Rightarrow> row \<Rightarrow> invoice" where
  "invoice_of_row max_rows cpr fmtDate headers r =
     \<lparr> projectName = cell_at_opt r (indexMap headers ''Project Name''),
       invoiceNumber = cell_at_opt r (indexMap headers ''Invoice Number''),
       clientName = cell_at_opt r (indexMap headers ''Client Name''),
       clientAddress = cell_at_opt r (indexMap headers ''Client Address''),
       clientNumber = cell_at_opt r (indexMap headers ''Client Number''),
       invoiceDate = fmtDate (cell_at_opt r (indexMap headers ''Invoice Date'')),
       dueDate = fmtDate (cell_at_opt r (indexMap headers ''Due Date'')),
       tax = cell_at_opt r (indexMap headers ''Tax Rate (%)''),
       subtotal = cell_at_opt r (indexMap headers ''Subtotal''),
       total = cell_at_opt r (indexMap headers ''Total''),
       exchangeRate = cell_at_opt r (indexMap headers ''Exchange Rate''),
       currency = cell_at_opt r (indexMap headers ''Currency''),
       amountInEUR = cell_at_opt r (indexMap headers ''Amount in EUR''),
       bankDetails1 = cell_at_opt r (indexMap headers ''Bank Details 1''),
       bankDetails2 = cell_at_opt r (indexMap headers ''Bank Details 2''),
       ourCompany = cell_at_opt r (indexMap headers ''Our Company''),
       comment = cell_at_opt r (indexMap headers ''Comment''),
       items = parse_items 21 max_rows cpr r \<rparr>"

definition getInvoiceDataByIdFromData ::
  "nat \<Rightarrow> nat \<Rightarrow> (cell \<Rightarrow> cell) \<Rightarrow> sheet_table \<Rightarrow> cell \<Rightarrow> invoice option" where
  "getInvoiceDataByIdFromData max_rows cpr fmtDate data i =
     (if invalid_id i then None
      else case data of
        [] \<Rightarrow> None
      | headers # rows \<Rightarrow>
          (case find_row_strict (indexMap headers ''ID'') i rows of
             None \<Rightarrow> None
           | Some r \<Rightarrow> Some (invoice_of_row max_rows cpr fmtDate headers r)))"





section \<open>Writing a record as a flat row\<close>

subsection \<open>Fixed-decimal formatting\<close>

text \<open>
  \<^verbatim>\<open>x.toFixed(f)\<close>: the integer \<open>n\<close> nearest to \<open>\<bar>x\<bar> * 10^f\<close> (the larger one of two that
  are equally near), printed with at least \<open>f + 1\<close> digits and a point before the last
  \<open>f\<close>; a minus sign when \<open>x < 0\<close>.
\<close>

definition toFixed :: "nat \<Rightarrow> rat \<Rightarrow> string" where
  "toFixed f x =
     (let n = nat \<lfloor>\<bar>x\<bar> * 10 ^ f + 1 / 2\<rfloor>;
          ds = digits_of n;
          padded = replicate (Suc f - length ds) (CHR ''0'') @ ds;
          k = length padded - f
      in (if x < 0 then ''-'' else '''') @ take k padded @
         (if f = 0 then '''' else ''.'' @ drop k padded))"

text \<open>\<^verbatim>\<open>parseFloat(c).toFixed(f)\<close>, which prints NaN as the text \<^verbatim>\<open>NaN\<close>.\<close>

definition parseFloat_toFixed :: "nat \<Rightarrow> cell \<Rightarrow> string" where
  "parseFloat_toFixed f c = (case parseFloat c of None \<Rightarrow> ''NaN'' | Some q \<Rightarrow> toFixed f q)"

subsection \<open>Line items\<close>

text \<open>
  \<^verbatim>\<open>a[i] = v\<close> on an array: an index past the end extends the array, leaving holes
  (\<^verbatim>\<open>undefined\<close>) between the old end and the new element.
\<close>

definition js_set :: "'a \<Rightarrow> 'a list \<Rightarrow> nat \<Rightarrow> 'a \<Rightarrow> 'a list" where
  "js_set hole a i v =
     (if i < length a then a[i := v] else a @ replicate (i - length a) hole @ [v])"

text \<open>
  \<^verbatim>\<open>if (newRow[2]) newRow[2] = `'${newRow[2].toString()}`\<close>: a truthy period cell gets a
  single quote in front, which makes the sheet keep it as text.
\<close>

definition escape_period :: "cell list \<Rightarrow> cell list" where
  "escape_period r =
     (if truthy (cell_at r 2)
      then (case toString (cell_at r 2) of
              None \<Rightarrow> r
            | Some t \<Rightarrow> js_set Undef r 2 (Str (CHR 0x27 # t)))
      else r)"

text \<open>\<^verbatim>\<open>newRow[0] = (i + 1).toString()\<close>, for the item at index \<open>i\<close>.\<close>

definition stamp_position :: "nat \<Rightarrow> cell list \<Rightarrow> cell list" where
  "stamp_position i r = js_set Undef r 0 (Str (digits_of (i + 1)))"

text \<open>
  The item loop of \<^verbatim>\<open>processFormFromData\<close>, of \<^verbatim>\<open>updateInvoiceByIdFromData\<close> and of
  the credit-note writers \<^verbatim>\<open>processCreditNoteFormFromData\<close> and
  \<^verbatim>\<open>saveCreditNoteData\<close>: every item is copied, stamped with its position, its period
  escaped, and its cells are appended to the flat list.
\<close>

definition stamped_items :: "cell list list \<Rightarrow> cell list list" where
  "stamped_items its = map (\<lambda>(i, r). escape_period (stamp_position i r)) (enumerate 0 its)"

definition itemCells_stamped :: "cell list list \<Rightarrow> cell list" where
  "itemCells_stamped its = concat (stamped_items its)"

text \<open>
  The item loop of \<^verbatim>\<open>saveInvoiceData\<close>: the period is escaped, and the cells are
  appended as they came.
\<close>

definition itemCells_saveInvoiceData :: "cell list list \<Rightarrow> cell list" where
  "itemCells_saveInvoiceData its = concat (map escape_period its)"

subsection \<open>Creating an invoice row\<close>

text \<open>
  \<^verbatim>\<open>new Date(x)\<close>. The Date is identified by the text of its argument.
\<close>

definition new_Date :: "cell \<Rightarrow> cell" where
  "new_Date c = DateC (key_of c)"

text \<open>
  \<^verbatim>\<open>const [day, month, year] = data.dueDate.split("/"); new Date(year, month - 1, day)\<close>.
  Only a string has \<^verbatim>\<open>split\<close>; on any other value the statement raises a TypeError
  (\<open>None\<close>).
\<close>

fun dueDateObject :: "cell \<Rightarrow> cell option" where
  "dueDateObject (Str s) = Some (DateC s)"
| "dueDateObject _ = None"

definition is_usd :: "invoice \<Rightarrow> bool" where
  "is_usd d = (currency d = Str ''$'')"

definition taxAmount_of :: "cell \<Rightarrow> cell \<Rightarrow> rat" where
  "taxAmount_of sub rate = (parseFloat_or0 sub * parseFloat_or0 rate) / 100"

definition totalAmount_of :: "cell \<Rightarrow> cell \<Rightarrow> rat" where
  "totalAmount_of sub rate = parseFloat_or0 sub + taxAmount_of sub rate"

text \<open>
  The array \<^verbatim>\<open>row\<close> that \<^verbatim>\<open>processFormFromData\<close> writes: 21 fixed cells followed by
  the item cells. \<open>None\<close> when the due date cannot be split.
\<close>

definition invoice_row :: "cell \<Rightarrow> invoice \<Rightarrow> row option" where
  "invoice_row uniqueId d =
     (case dueDateObject (dueDate d) of
        None \<Rightarrow> None
      | Some due \<Rightarrow>
          Some ([ uniqueId,
                  projectName d,
                  invoiceNumber d,
                  clientName d,
                  clientAddress d,
                  clientNumber d,
                  new_Date (invoiceDate d),
                  due,
                  Str (toFixed 0 (parseFloat_or0 (tax d))),
                  Str (toFixed 2 (parseFloat_or0 (subtotal d))),
                  Str (toFixed 2 (taxAmount_of (subtotal d) (tax d))),
                  Str (toFixed 2 (totalAmount_of (subtotal d) (tax d))),
                  (if is_usd d then Str (parseFloat_toFixed 4 (exchangeRate d)) else Str ''''),
                  currency d,
                  (if is_usd d then Str (parseFloat_toFixed 2 (amountInEUR d)) else Str ''''),
                  bankDetails1 d,
                  bankDetails2 d,
                  js_or (ourCompany d) (Str ''''),
                  js_or (comment d) (Str ''''),
                  Str '''',
                  Str '''' ] @ itemCells_stamped (items d)))"

text \<open>The header row that \<^verbatim>\<open>processFormFromData\<close> appends to an empty sheet.\<close>

definition baseHeaders :: "string list" where
  "baseHeaders =
     [''ID'', ''Project Name'', ''Invoice Number'', ''Client Name'', ''Client Address'',
      ''Client Number'', ''Invoice Date'', ''Due Date'', ''Tax Rate (%)'', ''Subtotal'',
      ''Tax Amount'', ''Total'', ''Exchange Rate'', ''Currency'', ''Amount in EUR'',
      ''Bank Details 1'', ''Bank Details 2'', ''Our Company'', ''Comment'',
      ''Google Doc Link'', ''PDF Link'']"

definition itemHeaders :: "nat \<Rightarrow> string list" where
  "itemHeaders max_rows =
     concat (map (\<lambda>i. [''Row '' @ digits_of i @ '' #'',
                         ''Row '' @ digits_of i @ '' Service'',
                         ''Row '' @ digits_of i @ '' Period'',
                         ''Row '' @ digits_of i @ '' Quantity'',
                         ''Row '' @ digits_of i @ '' Rate/hour'',
                         ''Row '' @ digits_of i @ '' Amount''])
                 [1..<Suc max_rows])"

definition invoice_headers :: "nat \<Rightarrow> row" where
  "invoice_headers max_rows = map Str (baseHeaders @ itemHeaders max_rows)"

text \<open>
  The sheet part of \<^verbatim>\<open>processFormFromData(data)\<close>. The sheet is the list of its rows
  and stores what is written to it unchanged. \<open>uniqueId\<close> is the value of
  \<^verbatim>\<open>Utilities.getUuid()\<close>. \<open>rendered\<close> stands for the document and PDF steps, which
  happen outside the sheet: \<open>Some (docUrl, pdfUrl)\<close> when they succeed, \<open>None\<close> when one
  of them raises. The result is the sheet afterwards, with the returned URLs, or \<open>None\<close>
  in their place when the function raises.

  An empty sheet first gets the header row. The row is written below the last row. When
  rendering succeeds, the two URLs are written into columns 20 and 21 of the new row.
\<close>

definition processFormFromData ::
  "nat \<Rightarrow> cell \<Rightarrow> (cell \<times> cell) option \<Rightarrow> sheet_table \<Rightarrow> invoice
     \<Rightarrow> sheet_table \<times> (cell \<times> cell) option" where
  "processFormFromData max_rows uniqueId rendered sheet d =
     (let sheet1 = (if sheet = [] then [invoice_headers max_rows] else sheet)
      in case invoice_row uniqueId d of
           None \<Rightarrow> (sheet1, None)
         | Some r \<Rightarrow>
             (case rendered of
                None \<Rightarrow> (sheet1 @ [r], None)
              | Some (docUrl, pdfUrl) \<Rightarrow>
                  (sheet1 @ [js_set Undef (js_set Undef r 19 docUrl) 20 pdfUrl],
                   Some (docUrl, pdfUrl))))"

text \<open>
  The array \<^verbatim>\<open>fullRow\<close> that \<^verbatim>\<open>saveInvoiceData\<close> writes. \<open>calcTax\<close> and \<open>calcTotal\<close>
  are \<^verbatim>\<open>calculateTaxAmountFromUtils\<close> and \<^verbatim>\<open>calculateTotalAmountFromUtils\<close>, whose code
  is outside these sources.
\<close>

definition saveInvoiceData_row ::
  "(cell \<Rightarrow> cell \<Rightarrow> cell) \<Rightarrow> (cell \<Rightarrow> cell \<Rightarrow> cell) \<Rightarrow> cell \<Rightarrow> invoice \<Rightarrow> row option" where
  "saveInvoiceData_row calcTax calcTotal uniqueId d =
     (case dueDateObject (dueDate d) of
        None \<Rightarrow> None
      | Some due \<Rightarrow>
          Some ([ uniqueId,
                  projectName d,
                  invoiceNumber d,
                  clientName d,
                  clientAddress d,
                  clientNumber d,
                  new_Date (invoiceDate d),
                  due,
                  tax d,
                  subtotal d,
                  calcTax (subtotal d) (tax d),
                  calcTotal (subtotal d) (calcTax (subtotal d) (tax d)),
                  (if is_usd d then exchangeRate d else Str ''''),
                  currency d,
                  (if is_usd d then amountInEUR d else Str ''''),
                  bankDetails1 d,
                  bankDetails2 d,
                  js_or (ourCompany d) (Str ''''),
                  js_or (comment d) (Str ''''),
                  Str '''',
                  Str '''' ] @ itemCells_saveInvoiceData (items d)))"

section \<open>Updating a row by id\<close>

text \<open>
  \<^verbatim>\<open>fullRow[indexMap[name]] = v\<close>: when the name is not a column the index is
  \<^verbatim>\<open>undefined\<close> (or \<open>-1\<close> after a failed \<^verbatim>\<open>indexOf\<close>) and the assignment sets a
  property of the array object, not one of its elements.
\<close>

definition set_col :: "row \<Rightarrow> nat option \<Rightarrow> cell \<Rightarrow> row" where
  "set_col r io v = (case io of None \<Rightarrow> r | Some i \<Rightarrow> js_set Undef r i v)"

text \<open>
  The values that \<^verbatim>\<open>updateInvoiceByIdFromData\<close> assigns by column name, in the order of
  the source.
\<close>

definition invoice_update_fields ::
  "cell \<Rightarrow> cell \<Rightarrow> cell \<Rightarrow> cell \<Rightarrow> invoice \<Rightarrow> (string \<times> cell) list" where
  "invoice_update_fields i due docUrl pdfUrl d =
     [ (''ID'', i),
       (''Project Name'', projectName d),
       (''Invoice Number'', invoiceNumber d),
       (''Client Name'', clientName d),
       (''Client Address'', clientAddress d),
       (''Client Number'', clientNumber d),
       (''Invoice Date'', new_Date (invoiceDate d)),
       (''Due Date'', due),
       (''Tax Rate (%)'', Str (toFixed 0 (parseFloat_or0 (tax d)))),
       (''Subtotal'', Str (toFixed 2 (parseFloat_or0 (subtotal d)))),
       (''Tax Amount'', Str (toFixed 2 (taxAmount_of (subtotal d) (tax d)))),
       (''Total'', Str (toFixed 2 (totalAmount_of (subtotal d) (tax d)))),
       (''Exchange Rate'',
          (if is_usd d then Str (parseFloat_toFixed 4 (js_or (exchangeRate d) (Num 0)))
           else Str '''')),
       (''Currency'', currency d),
       (''Amount in EUR'',
          (if is_usd d then Str (parseFloat_toFixed 2 (js_or (amountInEUR d) (Num 0)))
           else Str '''')),
       (''Bank Details 1'', bankDetails1 d),
       (''Bank Details 2'', bankDetails2 d),
       (''Our Company'', js_or (ourCompany d) (Str '''')),
       (''Comment'', js_or (comment d) (Str '''')),
       (''Google Doc Link'', docUrl),
       (''PDF Link'', pdfUrl) ]"

text \<open>
  The item block of an update: the flat list is cut to
  \<^verbatim>\<open>MAX_ROWS * COLUMNS_PER_ROW\<close> cells when it is longer and filled with empty strings when
  it is shorter.
\<close>

definition flatItems_update :: "nat \<Rightarrow> cell list list \<Rightarrow> cell list" where
  "flatItems_update itemsCapacity its =
     (let flat0 = itemCells_stamped its;
          flat1 = (if length flat0 > itemsCapacity then take itemsCapacity flat0 else flat0)
      in flat1 @ replicate (itemsCapacity - length flat1) (Str ''''))"

text \<open>
  \<^verbatim>\<open>for (j = 0; j < itemsCapacity; j++) { target = firstItemIdx + j;
  if (target < headers.length) fullRow[target] = flatItems[j]; }\<close>
\<close>

definition place_items :: "nat \<Rightarrow> nat \<Rightarrow> nat \<Rightarrow> cell list \<Rightarrow> row \<Rightarrow> row" where
  "place_items width firstItemIdx itemsCapacity flatItems fullRow =
     fold (\<lambda>j r. if firstItemIdx + j < width then js_set Undef r (firstItemIdx + j) (flatItems ! j)
                  else r)
          [0..<itemsCapacity] fullRow"

definition invoice_update_row ::
  "nat \<Rightarrow> nat \<Rightarrow> row \<Rightarrow> cell \<Rightarrow> cell \<Rightarrow> cell \<Rightarrow> cell \<Rightarrow> invoice \<Rightarrow> row" where
  "invoice_update_row max_rows cpr headers i due docUrl pdfUrl d =
     (let fullRow = fold (\<lambda>(name, v) r. set_col r (indexMap headers name) v)
                      (invoice_update_fields i due docUrl pdfUrl d)
                      (replicate (length headers) (Str ''''));
          itemsCapacity = max_rows * cpr;
          flatItems = flatItems_update itemsCapacity (items d)
      in case indexOf headers ''Row 1 #'' of
           None \<Rightarrow> fullRow
         | Some firstItemIdx \<Rightarrow>
             place_items (length headers) firstItemIdx itemsCapacity flatItems fullRow)"

text \<open>The index of the first element that satisfies the test of a search loop.\<close>

definition first_index :: "('a \<Rightarrow> bool) \<Rightarrow> 'a list \<Rightarrow> nat option" where
  "first_index P xs = (if list_ex P xs then Some (length (takeWhile (\<lambda>x. \<not> P x) xs)) else None)"

text \<open>
  \<^verbatim>\<open>updateInvoiceByIdFromData(id, data)\<close> on the table of the invoice sheet. \<open>rendered\<close>
  stands for the steps outside the sheet (the configuration lookup, the new document and
  its PDF): \<open>Some (docUrl, pdfUrl)\<close> when they succeed, \<open>None\<close> when one raises. The
  result is the table afterwards and \<open>Some\<close> of the URLs for
  \<^verbatim>\<open>{ success: true, docUrl, pdfUrl }\<close>, \<open>None\<close> for \<^verbatim>\<open>{ success: false, message }\<close>.
\<close>

definition updateInvoiceByIdFromData ::
  "nat \<Rightarrow> nat \<Rightarrow> (cell \<times> cell) option \<Rightarrow> sheet_table \<Rightarrow> cell \<Rightarrow> invoice
     \<Rightarrow> sheet_table \<times> (cell \<times> cell) option" where
  "updateInvoiceByIdFromData max_rows cpr rendered table i d =
     (if invalid_id i then (table, None)
      else case table of
        [] \<Rightarrow> (table, None)
      | headers # rows \<Rightarrow>
          (case indexMap headers ''ID'' of
             None \<Rightarrow> (table, None)
           | Some idCol \<Rightarrow>
               (case first_index (\<lambda>r. strict_eq (cell_at r idCol) i) rows of
                  None \<Rightarrow> (table, None)
                | Some k \<Rightarrow>
                    (case dueDateObject (js_or (dueDate d) (Str ''01/01/1970'')) of
                       None \<Rightarrow> (table, None)
                     | Some due \<Rightarrow>
                         (case rendered of
                            None \<Rightarrow> (table, None)
                          | Some (docUrl, pdfUrl) \<Rightarrow>
                              (headers #
                                 rows[k := invoice_update_row max_rows cpr headers i due
                                              docUrl pdfUrl d],
                               Some (docUrl, pdfUrl)))))))"

subsection \<open>The credit-note update\<close>

text \<open>
  \<^verbatim>\<open>updateCreditNoteByIdFromData(data)\<close>, the variant that takes the id inside the data
  and keeps the cells of columns it does not know. \<open>colMap\<close> is its table from column
  name to new value.
\<close>

definition cn_colMap :: "credit_note \<Rightarrow> (string \<times> cell) list" where
  "cn_colMap d =
     [ (''Project Name'', js_or (cn_projectName d) (Str '''')),
       (''CN Number'', js_or (cn_creditNoteNumber d) (Str '''')),
       (''Client Name'', js_or (cn_clientName d) (Str '''')),
       (''Client Address'', js_or (cn_clientAddress d) (Str '''')),
       (''Client Number'', js_or (cn_clientNumber d) (Str '''')),
       (''CN Date'',
          (if truthy (cn_creditNoteDate d) then new_Date (cn_creditNoteDate d) else Str '''')),
       (''Tax Rate (%)'', js_or (cn_tax d) (Str ''0'')),
       (''Subtotal'', js_or (cn_subtotal d) (Str ''0'')),
       (''Total'', js_or (cn_total d) (Str ''0'')),
       (''Exchange Rate'', js_or (cn_exchangeRate d) (Str ''1.0000'')),
       (''Currency'', js_or (cn_currency d) (Str ''$'')),
       (''Amount in EUR'', js_or (cn_amountInEUR d) (Str '''')),
       (''Our Company'', js_or (cn_ourCompany d) (Str '''')),
       (''Comment'', js_or (cn_comment d) (Str '''')) ]"

text \<open>
  \<^verbatim>\<open>headers.forEach((header, index) => ...)\<close> on \<^verbatim>\<open>new Array(headers.length)\<close>: a
  mapped column gets its new value, the ID column the id, any other column the value it had.
\<close>

definition cn_fill_row :: "row \<Rightarrow> row \<Rightarrow> cell \<Rightarrow> credit_note \<Rightarrow> row" where
  "cn_fill_row headers old i d =
     fold (\<lambda>(index, header) r.
             js_set Undef r index
               (case map_of (cn_colMap d) (key_of header) of
                  Some v \<Rightarrow> v
                | None \<Rightarrow> (if header = Str ''ID'' then i else cell_at old index)))
          (enumerate 0 headers) (replicate (length headers) Undef)"

text \<open>
  The item loop of the credit-note update: item \<open>i\<close> goes to columns \<open>18 + 4 i\<close> to
  \<open>18 + 4 i + 3\<close> when the last of them is a column of the header row, and is skipped
  otherwise; its cells are written as the caller gave them, an empty string standing for a
  falsy cell.
\<close>

definition cn_place_item :: "nat \<Rightarrow> nat \<times> cell list \<Rightarrow> row \<Rightarrow> row" where
  "cn_place_item width p r =
     (let startCol = 18 + fst p * 4; item = snd p
      in if startCol + 3 < width
         then js_set Undef
                (js_set Undef
                   (js_set Undef
                      (js_set Undef r startCol (js_or (cell_at item 0) (Str '''')))
                      (startCol + 1) (js_or (cell_at item 1) (Str '''')))
                   (startCol + 2) (js_or (cell_at item 2) (Str '''')))
                (startCol + 3) (js_or (cell_at item 3) (Str ''''))
         else r)"

definition cn_update_row :: "row \<Rightarrow> row \<Rightarrow> cell \<Rightarrow> cell \<Rightarrow> cell \<Rightarrow> credit_note \<Rightarrow> row" where
  "cn_update_row headers old i docUrl pdfUrl d =
     (let r1 = cn_fill_row headers old i d;
          r2 = fold (cn_place_item (length headers)) (enumerate 0 (cn_items d)) r1;
          r3 = set_col r2 (indexOf headers ''Google Doc Link'') docUrl
      in set_col r3 (indexOf headers ''PDF Link'') pdfUrl)"

text \<open>
  The function on the table of the credit-note sheet; \<open>rendered\<close> and the result are as
  for the invoice update.
\<close>

definition updateCreditNoteByIdFromData ::
  "(cell \<times> cell) option \<Rightarrow> sheet_table \<Rightarrow> cell \<Rightarrow> credit_note
     \<Rightarrow> sheet_table \<times> (cell \<times> cell) option" where
  "updateCreditNoteByIdFromData rendered table i d =
     (if \<not> truthy i then (table, None)
      else case table of
        [] \<Rightarrow> (table, None)
      | headers # rows \<Rightarrow>
          (case indexOf headers ''ID'' of
             None \<Rightarrow> (table, None)
           | Some idCol \<Rightarrow>
               (case first_index (\<lambda>r. strict_eq (cell_at r idCol) i) rows of
                  None \<Rightarrow> (table, None)
                | Some k \<Rightarrow>
                    (case rendered of
                       None \<Rightarrow> (table, None)
                     | Some (docUrl, pdfUrl) \<Rightarrow>
                         (headers # rows[k := cn_update_row headers (rows ! k) i docUrl pdfUrl d],
                          Some (docUrl, pdfUrl))))))"

section \<open>Resolving the configuration of a project\<close>

text \<open>
  What the scripts raise. The texts of \<^verbatim>\<open>ERROR_MESSAGES\<close> are outside these sources, so
  each of its entries is a constructor, with the argument the message is built from.
\<close>

datatype js_error =
    TypeError
  | PROJECT_NOT_FOUND cell
  | NO_TEMPLATE_NAME cell
  | NO_TEMPLATE_FOUND string
  | NO_TEMPLATE_ID
  | TABLE_NOT_FOUND
  | PlatformException
  | ErrorMsg string

text \<open>
  The column indices \<^verbatim>\<open>CONFIG.COLUMNS\<close> of the Lists sheet and the table
  \<^verbatim>\<open>CONFIG.CURRENCY_SYMBOLS\<close> are outside these sources; they are parameters.
\<close>

record columns =
  PROJECT_NAME :: nat
  TEMPLATE_NAME_COL :: nat
  TEMPLATE_ID_COL :: nat
  BANK_SHORT_COL :: nat
  BANK_FULL_COL :: nat
  TEMPLATE_NAME :: nat
  TAX_RATE :: nat
  BANK_SHORT_1 :: nat
  BANK_SHORT_2 :: nat
  CLIENT_NAME :: nat
  CLIENT_NUMBER_PART1 :: nat
  CLIENT_NUMBER_PART2 :: nat
  CLIENT_ADDRESS :: nat
  CURRENCY :: nat
  PAYMENT_DELAY :: nat
  DAY_TYPE :: nat
  OUR_COMPANY :: nat

text \<open>The object that \<^verbatim>\<open>getProjectDetailsFromData\<close> returns.\<close>

record project_details =
  pd_clientName :: cell
  pd_clientNumber :: cell
  pd_clientAddress :: cell
  pd_tax :: cell
  pd_currency :: cell
  pd_paymentDelay :: cell
  pd_dayType :: cell
  pd_bankDetails1 :: cell
  pd_bankDetails2 :: cell
  pd_ourCompany :: cell
  pd_templateId :: cell

text \<open>\<^verbatim>\<open>(x || "").toString().trim()\<close>.\<close>

definition trimmed_text :: "cell \<Rightarrow> string" where
  "trimmed_text c = js_trim (key_of (js_or c (Str '''')))"

definition upper_char :: "char \<Rightarrow> char" where
  "upper_char c =
     (case map_of (zip ''abcdefghijklmnopqrstuvwxyz'' ''ABCDEFGHIJKLMNOPQRSTUVWXYZ'') c of
        Some d \<Rightarrow> d
      | None \<Rightarrow> c)"

definition toUpperCase :: "string \<Rightarrow> string" where
  "toUpperCase s = map upper_char s"

text \<open>
  \<^verbatim>\<open>parseInt(x)\<close>: the text of \<open>x\<close>, leading white space skipped, an optional sign, then
  hexadecimal digits after \<^verbatim>\<open>0x\<close> or else decimal digits; NaN (\<open>None\<close>) when there is
  no digit.
\<close>

definition parseInt_unsigned :: "string \<Rightarrow> rat option" where
  "parseInt_unsigned s =
     (if take 2 s = ''0x'' \<or> take 2 s = ''0X''
      then (let ds = takeWhile (\<lambda>c. lower_char c \<in> set ''0123456789abcdef'') (drop 2 s)
            in if ds = [] then None else Some (of_nat (nat_of_digits 16 (map lower_char ds))))
      else (let ds = takeWhile is_digit s
            in if ds = [] then None else Some (of_nat (nat_of_digits 10 ds))))"

definition parseInt :: "cell \<Rightarrow> rat option" where
  "parseInt c =
     (case dropWhile is_ws (key_of c) of
        [] \<Rightarrow> None
      | ch # r \<Rightarrow>
          if ch = CHR ''-'' then map_option uminus (parseInt_unsigned r)
          else if ch = CHR ''+'' then parseInt_unsigned r
          else parseInt_unsigned (ch # r))"

text \<open>
  The state of the scanning loop: the project row found so far, the template map and the
  bank map. A map is the list of its \<^verbatim>\<open>set\<close> calls, the latest first, so that a lookup
  finds the latest value of a key.
\<close>

record scan_state =
  projectRow :: "row option"
  templateMap :: "(string \<times> string) list"
  bankMap :: "(string \<times> string) list"

text \<open>
  One turn of the loop over the rows of the Lists sheet. The comparison with the requested
  name is made only while no project row has been found; it calls
  \<^verbatim>\<open>projectName.toString()\<close>, which raises on \<^verbatim>\<open>undefined\<close>.
\<close>

definition scan_step :: "columns \<Rightarrow> cell \<Rightarrow> row \<Rightarrow> scan_state \<Rightarrow> js_error + scan_state" where
  "scan_step cols requested r st =
     (let name = trimmed_text (cell_at r (PROJECT_NAME cols));
          found =
            (case projectRow st of
               Some pr \<Rightarrow> Inr (Some pr)
             | None \<Rightarrow>
                 (case toString requested of
                    None \<Rightarrow> Inl TypeError
                  | Some p \<Rightarrow>
                      Inr (if toLowerCase name = toLowerCase (js_trim p) then Some r else None)));
          templateName = trimmed_text (cell_at r (TEMPLATE_NAME_COL cols));
          templateId = trimmed_text (cell_at r (TEMPLATE_ID_COL cols));
          short = trimmed_text (cell_at r (BANK_SHORT_COL cols));
          full = trimmed_text (cell_at r (BANK_FULL_COL cols))
      in case found of
           Inl e \<Rightarrow> Inl e
         | Inr pr \<Rightarrow>
             Inr \<lparr> projectRow = pr,
                   templateMap =
                     (if templateName \<noteq> [] \<and> templateId \<noteq> []
                      then (toLowerCase templateName, templateId) # templateMap st
                      else templateMap st),
                   bankMap =
                     (if short \<noteq> [] \<and> full \<noteq> [] then (short, full) # bankMap st
                      else bankMap st) \<rparr>)"

fun scan_rows :: "columns \<Rightarrow> cell \<Rightarrow> row list \<Rightarrow> scan_state \<Rightarrow> js_error + scan_state" where
  "scan_rows cols requested [] st = Inr st"
| "scan_rows cols requested (r # rs) st =
     (case scan_step cols requested r st of
        Inl e \<Rightarrow> Inl e
      | Inr st' \<Rightarrow> scan_rows cols requested rs st')"

text \<open>The object built from the project row once the template id is known.\<close>

definition details_of_row ::
  "columns \<Rightarrow> (string \<times> string) list \<Rightarrow> (string \<times> string) list \<Rightarrow> row \<Rightarrow> string
     \<Rightarrow> project_details" where
  "details_of_row cols symbols banks pr selectedTemplateId =
     (let taxv = (case cell_at pr (TAX_RATE cols) of
                    Num q \<Rightarrow> Some (q * 100)
                  | c \<Rightarrow> parseFloat c);
          shortBank1 = trimmed_text (cell_at pr (BANK_SHORT_1 cols));
          shortBank2 = trimmed_text (cell_at pr (BANK_SHORT_2 cols));
          cur = cell_at pr (CURRENCY cols)
      in \<lparr> pd_clientName = js_or (cell_at pr (CLIENT_NAME cols)) (Str ''''),
           pd_clientNumber =
             Str (js_trim (key_of (js_or (cell_at pr (CLIENT_NUMBER_PART1 cols)) (Str '''')) @ '' '' @
                           key_of (js_or (cell_at pr (CLIENT_NUMBER_PART2 cols)) (Str '''')))),
           pd_clientAddress = js_or (cell_at pr (CLIENT_ADDRESS cols)) (Str ''''),
           pd_tax = (case taxv of None \<Rightarrow> Num 0 | Some t \<Rightarrow> Str (toFixed 0 t)),
           pd_currency =
             (case map_of symbols (key_of cur) of
                Some symbol \<Rightarrow> js_or (Str symbol) cur
              | None \<Rightarrow> cur),
           pd_paymentDelay =
             (case parseInt (cell_at pr (PAYMENT_DELAY cols)) of
                None \<Rightarrow> Num 0
              | Some n \<Rightarrow> Num n),
           pd_dayType = Str (toUpperCase (trimmed_text (cell_at pr (DAY_TYPE cols)))),
           pd_bankDetails1 =
             (case map_of banks shortBank1 of Some b \<Rightarrow> js_or (Str b) (Str '''') | None \<Rightarrow> Str ''''),
           pd_bankDetails2 =
             (case map_of banks shortBank2 of Some b \<Rightarrow> js_or (Str b) (Str '''') | None \<Rightarrow> Str ''''),
           pd_ourCompany = js_or (cell_at pr (OUR_COMPANY cols)) (Str ''''),
           pd_templateId = Str selectedTemplateId \<rparr>)"

text \<open>
  \<^verbatim>\<open>getProjectDetailsFromData(projectName)\<close> on the table of the Lists sheet; the loop
  starts at the row after the header row.
\<close>

definition getProjectDetailsFromData ::
  "columns \<Rightarrow> (string \<times> string) list \<Rightarrow> sheet_table \<Rightarrow> cell \<Rightarrow> js_error + project_details" where
  "getProjectDetailsFromData cols symbols values requested =
     (case scan_rows cols requested (drop 1 values)
             \<lparr> projectRow = None, templateMap = [], bankMap = [] \<rparr> of
        Inl e \<Rightarrow> Inl e
      | Inr st \<Rightarrow>
          (case projectRow st of
             None \<Rightarrow> Inl (PROJECT_NOT_FOUND requested)
           | Some pr \<Rightarrow>
               (let selectedTemplateName = trimmed_text (cell_at pr (TEMPLATE_NAME cols))
                in if selectedTemplateName = [] then Inl (NO_TEMPLATE_NAME requested)
                   else (case map_of (templateMap st) (toLowerCase selectedTemplateName) of
                           None \<Rightarrow> Inl (NO_TEMPLATE_FOUND selectedTemplateName)
                         | Some tid \<Rightarrow>
                             if tid = [] then Inl (NO_TEMPLATE_FOUND selectedTemplateName)
                             else Inr (details_of_row cols symbols (bankMap st) pr tid)))))"

section \<open>Deleting a record and its artifacts\<close>

text \<open>The character class \<^verbatim>\<open>[-\w]\<close> of the file-id pattern.\<close>

definition is_word_char :: "char \<Rightarrow> bool" where
  "is_word_char c =
     (c \<in> set ''ABCDEFGHIJKLMNOPQRSTUVWXYZabcdefghijklmnopqrstuvwxyz0123456789_-'')"

text \<open>
  The maximal runs of such characters in a text, from left to right; the first argument is
  the run being read, reversed.
\<close>

fun word_runs :: "string \<Rightarrow> string \<Rightarrow> string list" where
  "word_runs cur [] = (if cur = [] then [] else [rev cur])"
| "word_runs cur (c # s) =
     (if is_word_char c then word_runs (c # cur) s
      else (if cur = [] then [] else [rev cur]) @ word_runs [] s)"

text \<open>
  \<^verbatim>\<open>url.match(/[-\w]{25,}/)\<close>: the leftmost match starts at the beginning of the first
  run of at least 25 such characters and, being greedy, takes the whole run.
\<close>

definition match_file_id :: "string \<Rightarrow> string option" where
  "match_file_id url = find (\<lambda>run. 25 \<le> length run) (word_runs [] url)"

text \<open>\<^verbatim>\<open>extractFileIdFromUrl(url)\<close>, which raises on a value that is not a non-empty string
  and on a text without a match.\<close>

definition extractFileIdFromUrl :: "cell \<Rightarrow> js_error + string" where
  "extractFileIdFromUrl url =
     (case url of
        Str s \<Rightarrow>
          (if s = [] then Inl (ErrorMsg ''Invalid URL provided: '')
           else case match_file_id s of
                  None \<Rightarrow> Inl (ErrorMsg (''Invalid file URL: '' @ s))
                | Some fid \<Rightarrow> Inr fid)
      | _ \<Rightarrow> Inl (ErrorMsg (''Invalid URL provided: '' @ key_of url)))"

text \<open>
  The file store: the ids that \<^verbatim>\<open>DriveApp.getFileById\<close> resolves, and the ids of the
  files put in the trash.
\<close>

record drive =
  files :: "string list"
  trashed :: "string list"

text \<open>\<^verbatim>\<open>DriveApp.getFileById(id).setTrashed(true)\<close>, which raises when no file has the id.\<close>

definition trash_file :: "drive \<Rightarrow> string \<Rightarrow> js_error + drive" where
  "trash_file drv fid =
     (if fid \<in> set (files drv) then Inr (drv\<lparr> trashed := fid # trashed drv \<rparr>)
      else Inl PlatformException)"

text \<open>
  One of the two guarded deletions of \<^verbatim>\<open>deleteInvoiceByIdFromData\<close>:
  \<^verbatim>\<open>if (url && url.trim() !== "") { try { ... } catch (err) { deletedNotes.push(msg) } }\<close>.
  The test itself stands outside the \<^verbatim>\<open>try\<close>: on a truthy value that is not a string,
  \<^verbatim>\<open>url.trim\<close> raises a TypeError.
\<close>

definition delete_artifact ::
  "string \<Rightarrow> cell \<Rightarrow> drive \<times> string list \<Rightarrow> js_error + drive \<times> string list" where
  "delete_artifact msg url st =
     (if truthy url
      then (case url of
              Str s \<Rightarrow>
                (if js_trim s \<noteq> []
                 then (case extractFileIdFromUrl url of
                         Inl e \<Rightarrow> Inr (fst st, snd st @ [msg])
                       | Inr fid \<Rightarrow>
                           (case trash_file (fst st) fid of
                              Inl e \<Rightarrow> Inr (fst st, snd st @ [msg])
                            | Inr drv' \<Rightarrow> Inr (drv', snd st)))
                 else Inr st)
            | _ \<Rightarrow> Inl TypeError)
      else Inr st)"

text \<open>\<^verbatim>\<open>deletedNotes.join(" ")\<close>.\<close>

fun join_space :: "string list \<Rightarrow> string" where
  "join_space [] = []"
| "join_space [x] = x"
| "join_space (x # y # zs) = x @ '' '' @ join_space (y # zs)"

text \<open>
  What the operation works on: the table of the sheet, the file store, and the keys held by
  the script cache.
\<close>

record world =
  w_sheet :: sheet_table
  w_drive :: drive
  w_cache :: "string list"

text \<open>
  The returned object: \<^verbatim>\<open>{ success: false, message }\<close> or
  \<^verbatim>\<open>{ success: true, note }\<close>, the note being \<^verbatim>\<open>undefined\<close> (\<open>None\<close>) when nothing
  failed.
\<close>

datatype delete_result = Failed js_error | Succeeded "string option"

definition deleteInvoiceByIdFromData :: "world \<Rightarrow> cell \<Rightarrow> world \<times> delete_result" where
  "deleteInvoiceByIdFromData w i =
     (if invalid_id i then (w, Failed (ErrorMsg ''Invalid invoice ID provided''))
      else case w_sheet w of
        [] \<Rightarrow> (w, Failed TypeError)
      | headers # rows \<Rightarrow>
          (case indexOf headers ''ID'' of
             None \<Rightarrow> (w, Failed (ErrorMsg ''ID column not found.''))
           | Some idCol \<Rightarrow>
               (case first_index (\<lambda>r. strict_eq (cell_at r idCol) i) rows of
                  None \<Rightarrow> (w, Failed (ErrorMsg ''Invoice not found.''))
                | Some k \<Rightarrow>
                    (let docUrl = js_or (cell_at_opt (rows ! k) (indexOf headers ''Google Doc Link''))
                                    (Str '''');
                         pdfUrl = js_or (cell_at_opt (rows ! k) (indexOf headers ''PDF Link''))
                                    (Str '''')
                     in case delete_artifact ''Google Doc already deleted or not found.'' docUrl
                               (w_drive w, []) of
                          Inl e \<Rightarrow> (w, Failed e)
                        | Inr st1 \<Rightarrow>
                            (case delete_artifact ''PDF already deleted or not found.'' pdfUrl st1 of
                               Inl e \<Rightarrow> (w\<lparr> w_drive := fst st1 \<rparr>, Failed e)
                             | Inr st2 \<Rightarrow>
                                 (\<lparr> w_sheet = headers # (take k rows @ drop (Suc k) rows),
                                    w_drive = fst st2,
                                    w_cache = removeAll ''invoiceList'' (w_cache w) \<rparr>,
                                  Succeeded (if snd st2 = [] then None
                                             else Some (join_space (snd st2)))))))))"

text \<open>
  For stating what a deletion leaves behind: a link is dead in a file store when its text
  holds no file id or the id resolves to no file; \<open>trash_link\<close> is the store after the
  file of a link, if it resolves, has been put in the trash; \<open>failure_note\<close> is the note
  owed for a non-blank dead link.
\<close>

definition dead_link :: "drive \<Rightarrow> string \<Rightarrow> bool" where
  "dead_link drv s =
     (case match_file_id s of None \<Rightarrow> True | Some fid \<Rightarrow> fid \<notin> set (files drv))"

definition trash_link :: "drive \<Rightarrow> string \<Rightarrow> drive" where
  "trash_link drv s =
     (case match_file_id s of
        None \<Rightarrow> drv
      | Some fid \<Rightarrow> if fid \<in> set (files drv) \<and> js_trim s \<noteq> []
                    then drv\<lparr> trashed := fid # trashed drv \<rparr> else drv)"

definition failure_note :: "string \<Rightarrow> drive \<Rightarrow> string \<Rightarrow> string list" where
  "failure_note msg drv s = (if js_trim s \<noteq> [] \<and> dead_link drv s then [msg] else [])"

section \<open>Filling the item table of a document\<close>

text \<open>
  The body of a document is modelled by the list of its tables, in document order; a table
  is the list of its rows and a row the list of the texts of its cells.
  \<open>fmtCur\<close> is \<^verbatim>\<open>formatCurrencyFromUtils\<close>, whose code is outside these sources.
\<close>

type_synonym doc_table = "string list list"















section \<open>Creating a credit note\<close>

text \<open>
  \<^verbatim>\<open>getProjectFolderId(projectName)\<close> on the table of the Lists sheet: the file id found
  in column M of the first row with the project's name, or \<^verbatim>\<open>CONFIG.FOLDER_ID\<close>
  (\<open>default_folder\<close>) when the project or the id is missing.
\<close>

definition getProjectFolderId :: "columns \<Rightarrow> cell \<Rightarrow> sheet_table \<Rightarrow> cell \<Rightarrow> cell" where
  "getProjectFolderId cols default_folder values requested =
     (case find (\<lambda>r. trimmed_text (cell_at r (PROJECT_NAME cols)) \<noteq> [] \<and> truthy requested \<and>
                     toLowerCase (trimmed_text (cell_at r (PROJECT_NAME cols)))
                       = toLowerCase (js_trim (key_of requested)))
                (drop 1 values) of
        None \<Rightarrow> default_folder
      | Some r \<Rightarrow>
          (case match_file_id (trimmed_text (cell_at r 12)) of
             Some fid \<Rightarrow> Str fid
           | None \<Rightarrow> default_folder))"

text \<open>
  The values of \<^verbatim>\<open>templateId\<close> and \<^verbatim>\<open>folderId\<close> in a call of
  \<^verbatim>\<open>createCreditNoteDoc\<close>.
\<close>

record render_call =
  rc_templateId :: cell
  rc_folderId :: cell

text \<open>The template id written into \<^verbatim>\<open>processCreditNoteFormFromData\<close>.\<close>

definition hardcoded_templateId :: string where
  "hardcoded_templateId = ''1yCKAx3nyIz-L_u3FPSK1zMof5Mo0m2-gsNzl1cCQsuQ''"

definition cn_baseHeaders :: "string list" where
  "cn_baseHeaders =
     [''ID'', ''Project Name'', ''CN Number'', ''Client Name'', ''Client Address'',
      ''Client Number'', ''CN Date'', ''Tax Rate (%)'', ''Subtotal'', ''Tax Amount'', ''Total'',
      ''Exchange Rate'', ''Currency'', ''Amount in EUR'', ''Our Company'', ''Comment'',
      ''Google Doc Link'', ''PDF Link'']"

definition cn_itemHeaders :: "string list" where
  "cn_itemHeaders =
     concat (map (\<lambda>i. [''Row '' @ digits_of i @ '' #'',
                         ''Row '' @ digits_of i @ '' Description'',
                         ''Row '' @ digits_of i @ '' Period'',
                         ''Row '' @ digits_of i @ '' Amount''])
                 [1..<21])"

text \<open>The array \<^verbatim>\<open>row\<close> of \<^verbatim>\<open>processCreditNoteFormFromData\<close>.\<close>

definition credit_note_row :: "cell \<Rightarrow> credit_note \<Rightarrow> row" where
  "credit_note_row uniqueId d =
     [ uniqueId,
       cn_projectName d,
       cn_creditNoteNumber d,
       cn_clientName d,
       cn_clientAddress d,
       cn_clientNumber d,
       new_Date (cn_creditNoteDate d),
       Str (toFixed 0 (parseFloat_or0 (cn_tax d))),
       Str (toFixed 2 (parseFloat_or0 (cn_subtotal d))),
       Str (toFixed 2 (taxAmount_of (cn_subtotal d) (cn_tax d))),
       Str (toFixed 2 (totalAmount_of (cn_subtotal d) (cn_tax d))),
       (if cn_currency d = Str ''$'' then Str (parseFloat_toFixed 4 (cn_exchangeRate d))
        else Str ''''),
       cn_currency d,
       (if cn_currency d = Str ''$'' then Str (parseFloat_toFixed 2 (cn_amountInEUR d))
        else Str ''''),
       js_or (cn_ourCompany d) (Str ''''),
       js_or (cn_comment d) (Str ''''),
       Str '''',
       Str '''' ] @ itemCells_stamped (cn_items d)"

text \<open>
  What a creation leaves behind: the sheet, the call of \<^verbatim>\<open>createCreditNoteDoc\<close> if one was
  made, and the returned URLs (\<open>None\<close> when the function raised).
\<close>

record creation =
  cr_sheet :: sheet_table
  cr_call :: "render_call option"
  cr_urls :: "(cell \<times> cell) option"

text \<open>
  \<^verbatim>\<open>processCreditNoteFormFromData(data)\<close>. \<open>createDoc\<close> stands for
  \<^verbatim>\<open>createCreditNoteDoc\<close> and the PDF steps after it: from the call it gives the URLs of
  the document and of the PDF, or \<open>None\<close> when one of the steps raises. The sheet gets
  the header row when it is empty, then the new row, then the two URLs in columns 17 and 18
  of the new row.
\<close>

definition processCreditNoteFormFromData ::
  "columns \<Rightarrow> cell \<Rightarrow> (render_call \<Rightarrow> credit_note \<Rightarrow> (cell \<times> cell) option) \<Rightarrow> sheet_table
     \<Rightarrow> sheet_table \<Rightarrow> cell \<Rightarrow> credit_note \<Rightarrow> creation" where
  "processCreditNoteFormFromData cols default_folder createDoc lists_table cn_sheet uniqueId d =
     (let sheet1 = (if cn_sheet = [] then [map Str (cn_baseHeaders @ cn_itemHeaders)]
                    else cn_sheet);
          r = credit_note_row uniqueId d;
          folderId = getProjectFolderId cols default_folder lists_table (cn_projectName d);
          templateId = Str hardcoded_templateId;
          call = \<lparr> rc_templateId = templateId, rc_folderId = folderId \<rparr>
      in case createDoc call d of
           None \<Rightarrow> \<lparr> cr_sheet = sheet1 @ [r], cr_call = Some call, cr_urls = None \<rparr>
         | Some (docUrl, pdfUrl) \<Rightarrow>
             \<lparr> cr_sheet = sheet1 @ [js_set Undef (js_set Undef r 16 docUrl) 17 pdfUrl],
               cr_call = Some call,
               cr_urls = Some (docUrl, pdfUrl) \<rparr>)"

text \<open>
  \<^verbatim>\<open>validateCreditNoteData(data).isValid\<close>: every required field is truthy and, when it is
  a string, not blank; the item array is not empty.
\<close>

definition required_present :: "cell \<Rightarrow> bool" where
  "required_present c =
     (if truthy c then (case c of Str s \<Rightarrow> js_trim s \<noteq> [] | _ \<Rightarrow> True) else False)"

definition validateCreditNoteData :: "credit_note \<Rightarrow> bool" where
  "validateCreditNoteData d =
     (list_all required_present
        [cn_projectName d, cn_creditNoteNumber d, cn_clientName d, cn_clientAddress d,
         cn_clientNumber d, cn_creditNoteDate d, cn_tax d, cn_subtotal d, cn_total d,
         cn_currency d, cn_ourCompany d]
      \<and> cn_items d \<noteq> [])"

text \<open>\<^verbatim>\<open>getProjectDetailsWithValidation(projectName)\<close>.\<close>

definition getProjectDetailsWithValidation ::
  "columns \<Rightarrow> (string \<times> string) list \<Rightarrow> sheet_table \<Rightarrow> cell \<Rightarrow> js_error + project_details" where
  "getProjectDetailsWithValidation cols symbols lists_table requested =
     (if \<not> truthy requested then Inl (ErrorMsg ''Project name is required'')
      else case requested of
        Str s \<Rightarrow>
          (if js_trim s = [] then Inl (ErrorMsg ''Project name is required'')
           else case getProjectDetailsFromData cols symbols lists_table requested of
                  Inl e \<Rightarrow> Inl e
                | Inr details \<Rightarrow>
                    if truthy (pd_templateId details) then Inr details
                    else Inl (ErrorMsg ''No template found for project''))
      | _ \<Rightarrow> Inl TypeError)"

text \<open>
  \<^verbatim>\<open>processCreditNoteCreation(data)\<close>: validation, the configuration lookup, the folder
  lookup, then \<^verbatim>\<open>processCreditNoteFormFromData\<close>. The details that the lookup returns
  are not handed on.
\<close>

definition processCreditNoteCreation ::
  "columns \<Rightarrow> (string \<times> string) list \<Rightarrow> cell
     \<Rightarrow> (render_call \<Rightarrow> credit_note \<Rightarrow> (cell \<times> cell) option) \<Rightarrow> sheet_table
     \<Rightarrow> sheet_table \<Rightarrow> cell \<Rightarrow> credit_note \<Rightarrow> creation" where
  "processCreditNoteCreation cols symbols default_folder createDoc lists_table cn_sheet uniqueId d =
     (if \<not> validateCreditNoteData d
      then \<lparr> cr_sheet = cn_sheet, cr_call = None, cr_urls = None \<rparr>
      else case getProjectDetailsWithValidation cols symbols lists_table (cn_projectName d) of
             Inl e \<Rightarrow> \<lparr> cr_sheet = cn_sheet, cr_call = None, cr_urls = None \<rparr>
           | Inr projectDetails \<Rightarrow>
               if \<not> truthy (getProjectFolderId cols default_folder lists_table (cn_projectName d))
               then \<lparr> cr_sheet = cn_sheet, cr_call = None, cr_urls = None \<rparr>
               else processCreditNoteFormFromData cols default_folder createDoc lists_table cn_sheet
                      uniqueId d)"

text \<open>
  The call of \<^verbatim>\<open>createCreditNoteDoc\<close> made by \<^verbatim>\<open>saveCreditNoteData(data)\<close>, the writer
  that shares the invoice layout: the values of its variables \<^verbatim>\<open>templateId\<close> and
  \<^verbatim>\<open>folderId\<close> at the call, the first being the template id of the project's details.
  This call has nine arguments, the formatted due date among them, while the
  \<^verbatim>\<open>createCreditNoteDoc\<close> of the document service has eight parameters; what is recorded
  here is the call site, not the parameters of that function.
\<close>

definition saveCreditNoteData_call ::
  "columns \<Rightarrow> (string \<times> string) list \<Rightarrow> cell \<Rightarrow> sheet_table \<Rightarrow> invoice
     \<Rightarrow> js_error + render_call" where
  "saveCreditNoteData_call cols symbols default_folder lists_table d =
     (case dueDateObject (dueDate d) of
        None \<Rightarrow> Inl TypeError
      | Some due \<Rightarrow>
          (case getProjectDetailsFromData cols symbols lists_table (projectName d) of
             Inl e \<Rightarrow> Inl e
           | Inr detailsForTemplate \<Rightarrow>
               if \<not> truthy (pd_templateId detailsForTemplate) then Inl NO_TEMPLATE_ID
               else Inr \<lparr> rc_templateId = pd_templateId detailsForTemplate,
                          rc_folderId = getProjectFolderId cols default_folder lists_table
                                          (projectName d) \<rparr>))"

section \<open>Rounding to two decimals\<close>


section \<open>Reading the sheet\<close>

text \<open>
  \<^verbatim>\<open>sheet.getDataRange().getValues()\<close>: the rows of the sheet as a rectangle, a row shorter
  than the widest one being filled with empty strings.
\<close>

definition getValues :: "sheet_table \<Rightarrow> sheet_table" where
  "getValues sh =
     (let w = foldr max (map length sh) 0
      in map (\<lambda>r. r @ replicate (w - length r) (Str '''')) sh)"

text \<open>
  The invoice reader finds its fields by column name and the creation writes them by
  position; \<open>invoice_layout\<close> says of a header row that each name the reader looks up
  stands at the position where the creation writes the field.
\<close>

definition invoice_layout :: "row \<Rightarrow> bool" where
  "invoice_layout headers =
     (indexMap headers ''ID'' = Some 0 \<and>
      indexMap headers ''Project Name'' = Some 1 \<and>
      indexMap headers ''Invoice Number'' = Some 2 \<and>
      indexMap headers ''Client Name'' = Some 3 \<and>
      indexMap headers ''Client Address'' = Some 4 \<and>
      indexMap headers ''Client Number'' = Some 5 \<and>
      indexMap headers ''Invoice Date'' = Some 6 \<and>
      indexMap headers ''Due Date'' = Some 7 \<and>
      indexMap headers ''Tax Rate (%)'' = Some 8 \<and>
      indexMap headers ''Subtotal'' = Some 9 \<and>
      indexMap headers ''Total'' = Some 11 \<and>
      indexMap headers ''Exchange Rate'' = Some 12 \<and>
      indexMap headers ''Currency'' = Some 13 \<and>
      indexMap headers ''Amount in EUR'' = Some 14 \<and>
      indexMap headers ''Bank Details 1'' = Some 15 \<and>
      indexMap headers ''Bank Details 2'' = Some 16 \<and>
      indexMap headers ''Our Company'' = Some 17 \<and>
      indexMap headers ''Comment'' = Some 18)"

text \<open>
  The record that reading back is expected to give for a submitted invoice: the fields that
  are stored as they came, the dates as Date objects passed through
  \<^verbatim>\<open>formatDateForInput\<close>, the numeric fields in their fixed-decimal form, the exchange
  fields only for the dollar, and the items stamped and escaped.
\<close>

definition stored_invoice :: "(cell \<Rightarrow> cell) \<Rightarrow> string \<Rightarrow> invoice \<Rightarrow> invoice" where
  "stored_invoice fmtDate due d =
     \<lparr> projectName = projectName d,
       invoiceNumber = invoiceNumber d,
       clientName = clientName d,
       clientAddress = clientAddress d,
       clientNumber = clientNumber d,
       invoiceDate = fmtDate (new_Date (invoiceDate d)),
       dueDate = fmtDate (DateC due),
       tax = Str (toFixed 0 (parseFloat_or0 (tax d))),
       subtotal = Str (toFixed 2 (parseFloat_or0 (subtotal d))),
       total = Str (toFixed 2 (totalAmount_of (subtotal d) (tax d))),
       exchangeRate =
         (if is_usd d then Str (parseFloat_toFixed 4 (exchangeRate d)) else Str ''''),
       currency = currency d,
       amountInEUR =
         (if is_usd d then Str (parseFloat_toFixed 2 (amountInEUR d)) else Str ''''),
       bankDetails1 = bankDetails1 d,
       bankDetails2 = bankDetails2 d,
       ourCompany = js_or (ourCompany d) (Str ''''),
       comment = js_or (comment d) (Str ''''),
       items = stamped_items (items d) \<rparr>"

section \<open>Sample inputs\<close>

text \<open>A line item as the invoice form submits it: six cells, the first one the row number.\<close>

definition sample_item :: "cell list" where
  "sample_item = [Str ''7'', Str ''Development'', Str ''Jan 2024'', Str ''10'', Str ''50'', Str ''500'']"

text \<open>An invoice with \<open>n\<close> such items.\<close>

definition sample_invoice :: "nat \<Rightarrow> invoice" where
  "sample_invoice n =
     \<lparr> projectName = Str ''Apollo'', invoiceNumber = Str ''42'', clientName = Str ''Client'',
       clientAddress = Str ''Street 1'', clientNumber = Str ''C-1'',
       invoiceDate = Str ''2024-01-31'', dueDate = Str ''15/02/2024'',
       tax = Str ''15'', subtotal = Str ''100.00'', total = Str ''115.00'',
       exchangeRate = Str ''1.08'', currency = Str ''EUR'', amountInEUR = Str ''115.00'',
       bankDetails1 = Str ''Bank A'', bankDetails2 = Str ''Bank B'',
       ourCompany = Str ''Us'', comment = Str '''',
       items = replicate n sample_item \<rparr>"

text \<open>A credit note as the credit-note form submits it, with \<open>n\<close> four-cell items.\<close>

definition sample_credit_note :: "nat \<Rightarrow> credit_note" where
  "sample_credit_note n =
     \<lparr> cn_projectName = Str ''Apollo'', cn_creditNoteNumber = Str ''CN-7'',
       cn_clientName = Str ''Client'', cn_clientAddress = Str ''Street 1'',
       cn_clientNumber = Str ''C-1'', cn_creditNoteDate = Str ''2024-01-31'',
       cn_tax = Str ''15'', cn_subtotal = Str ''100.00'', cn_total = Str ''115.00'',
       cn_exchangeRate = Str ''1.08'', cn_currency = Str ''EUR'', cn_amountInEUR = Str ''115.00'',
       cn_ourCompany = Str ''Us'', cn_comment = Str '''',
       cn_items = replicate n [Str ''7'', Str ''Refund'', Str ''Jan 2024'', Str ''500''] \<rparr>"

text \<open>A small sheet: a header row and one data row with the id \<open>u\<close>.\<close>

definition sample_sheet :: sheet_table where
  "sample_sheet = [[Str ''ID'', Str ''Project Name'', Str ''Row 1 #''],
                   [Str ''u'', Str ''Old'', Str ''x'']]"

text \<open>
  A Lists sheet with two projects, two templates and two banks, and the column indices
  used with it.
\<close>

definition sample_columns :: columns where
  "sample_columns =
     \<lparr> PROJECT_NAME = 0, TEMPLATE_NAME_COL = 11, TEMPLATE_ID_COL = 12, BANK_SHORT_COL = 13,
       BANK_FULL_COL = 14, TEMPLATE_NAME = 1, TAX_RATE = 2, BANK_SHORT_1 = 3, BANK_SHORT_2 = 4,
       CLIENT_NAME = 5, CLIENT_NUMBER_PART1 = 6, CLIENT_NUMBER_PART2 = 7, CLIENT_ADDRESS = 8,
       CURRENCY = 9, PAYMENT_DELAY = 10, DAY_TYPE = 15, OUR_COMPANY = 16 \<rparr>"

definition sample_lists :: sheet_table where
  "sample_lists =
     [ [Str ''Project'', Str ''Template'', Str ''Tax'', Str ''Bank 1'', Str ''Bank 2'',
        Str ''Client'', Str ''No 1'', Str ''No 2'', Str ''Address'', Str ''Currency'',
        Str ''Delay'', Str ''Template name'', Str ''Template id'', Str ''Short'', Str ''Full'',
        Str ''Day type'', Str ''Company''],
       [Str ''Apollo'', Str ''Standard'', Num (15 / 100), Str ''A'', Str ''B'',
        Str ''Client One'', Str ''HRB'', Num 123, Str ''Street 1'', Str ''USD'',
        Num 30, Str ''Standard'', Str ''TEMPLATE-ID-STANDARD'', Str ''A'', Str ''Bank A, IBAN 1'',
        Str ''w'', Str ''Us''],
       [Str ''Gemini'', Str ''Special'', Str ''20'', Str ''B'', Str '''',
        Str ''Client Two'', Str '''', Str '''', Str ''Street 2'', Str ''EUR'',
        Str '''', Str ''Special'', Str ''TEMPLATE-ID-SPECIAL'', Str ''B'', Str ''Bank B, IBAN 2'',
        Str ''c'', Str ''Us''] ]"

definition sample_symbols :: "(string \<times> string) list" where
  "sample_symbols = [(''USD'', ''$'')]"

text \<open>
  An invoice sheet with one record whose two links name files, and a file store that holds
  neither of them.
\<close>

definition sample_world :: world where
  "sample_world =
     \<lparr> w_sheet =
         [ [Str ''ID'', Str ''Project Name'', Str ''Google Doc Link'', Str ''PDF Link''],
           [Str ''id-1'', Str ''Apollo'',
            Str ''https://docs.example.com/document/d/1AbCdEfGhIjKlMnOpQrStUvWxYz012345/edit'',
            Str ''https://drive.example.com/file/d/9ZyXwVuTsRqPoNmLkJiHgFeDcBa98765/view''],
           [Str ''id-2'', Str ''Gemini'', Str '''', Str ''''] ],
       w_drive = \<lparr> files = [''some-other-file-id-0123456789''], trashed = [] \<rparr>,
       w_cache = [''invoiceList'', ''creditNoteList''] \<rparr>"

text \<open>
  Document tables: the item table of the invoice template, the same table with a seventh
  column, a table with lower-case labels, and a table that is no item table.
\<close>

definition invoice_template_table :: doc_table where
  "invoice_template_table =
     [ [''#'', ''Services'', ''Period'', ''Quantity'', ''Rate/hour'', ''Amount''],
       [''{#}'', ''{Service}'', ''{Period}'', ''{Quantity}'', ''{Rate}'', ''{Amount}''] ]"


definition lower_case_table :: doc_table where
  "lower_case_table =
     [ [''#'', ''services rendered'', ''billing period'', ''total amount''],
       [''x'', ''x'', ''x'', ''x''] ]"



text \<open>A renderer for the examples: it succeeds and names the template in the URL.\<close>

definition sample_createDoc :: "render_call \<Rightarrow> credit_note \<Rightarrow> (cell \<times> cell) option" where
  "sample_createDoc call d =
     Some (Str (''doc-from-'' @ key_of (rc_templateId call)),
           Str (''pdf-from-'' @ key_of (rc_templateId call)))"

section \<open>Properties\<close>

subsection \<open>Auxiliary facts about text and numbers\<close>

lemma mem_dropWhile: "c \<in> set xs \<Longrightarrow> \<not> P c \<Longrightarrow> c \<in> set (dropWhile P xs)"
  by (induction xs) auto

lemma trim_nonempty: "c \<in> set s \<Longrightarrow> \<not> is_ws c \<Longrightarrow> js_trim s \<noteq> []"
proof -
  assume a: "c \<in> set s" "\<not> is_ws c"
  then have "c \<in> set (rev (dropWhile is_ws s))" by (simp add: mem_dropWhile)
  then have "c \<in> set (dropWhile is_ws (rev (dropWhile is_ws s)))"
    using a(2) by (rule mem_dropWhile)
  then have "dropWhile is_ws (rev (dropWhile is_ws s)) \<noteq> []"
    by (cases "dropWhile is_ws (rev (dropWhile is_ws s))") simp_all
  then show ?thesis unfolding js_trim_def by (simp del: dropWhile_eq_Nil_conv)
qed

lemma digits_of_digits: "digits_of n \<noteq> [] \<and> set (digits_of n) \<subseteq> set ''0123456789''"
proof (induction n rule: digits_of.induct)
  case (1 n)
  have m: "''0123456789'' ! (n mod 10) \<in> set ''0123456789''"
    by (rule nth_mem) simp
  show ?case
  proof (cases "n < 10")
    case True
    then have "''0123456789'' ! n \<in> set ''0123456789''" by (intro nth_mem) simp
    with True show ?thesis by (subst (1 2) digits_of.simps) simp
  next
    case False
    with 1 m show ?thesis by (subst (1 2) digits_of.simps) simp
  qed
qed

lemma digit_not_ws: "c \<in> set ''0123456789'' \<Longrightarrow> \<not> is_ws c"
  by (auto simp: is_ws_def)


subsection \<open>Strict and loose comparison of ids\<close>







subsection \<open>Updates keep the width of the header row\<close>

lemma length_js_set_in: "i < length a \<Longrightarrow> length (js_set h a i v) = length a"
  by (simp add: js_set_def)

lemma indexMap_from_bound:
  "indexMap_from k hs name = Some j \<Longrightarrow> k \<le> j \<and> j < k + length hs"
proof (induction hs arbitrary: k)
  case Nil
  then show ?case by simp
next
  case (Cons h hs)
  show ?case
  proof (cases "indexMap_from (Suc k) hs name")
    case None
    with Cons.prems show ?thesis by (simp split: if_splits)
  next
    case (Some j')
    with Cons.prems have "j' = j" by simp
    with Some Cons.IH [of "Suc k"] show ?thesis by simp
  qed
qed

lemma indexMap_bound: "indexMap hs name = Some j \<Longrightarrow> j < length hs"
  using indexMap_from_bound [of 0 hs name j] by (simp add: indexMap_def)

lemma indexOf_from_bound:
  "indexOf_from k hs name = Some j \<Longrightarrow> k \<le> j \<and> j < k + length hs"
proof (induction hs arbitrary: k)
  case Nil
  then show ?case by simp
next
  case (Cons h hs)
  show ?case
  proof (cases "h = Str name")
    case True
    with Cons.prems show ?thesis by simp
  next
    case False
    with Cons.prems have "indexOf_from (Suc k) hs name = Some j" by simp
    with Cons.IH [of "Suc k"] show ?thesis by simp
  qed
qed

lemma indexOf_bound: "indexOf hs name = Some j \<Longrightarrow> j < length hs"
  using indexOf_from_bound [of 0 hs name j] by (simp add: indexOf_def)

lemma length_set_col_indexMap:
  "length r = length hs \<Longrightarrow> length (set_col r (indexMap hs name) v) = length hs"
  using indexMap_bound [of hs name]
  by (cases "indexMap hs name") (simp_all add: set_col_def length_js_set_in)

lemma length_set_col_indexOf:
  "length r = length hs \<Longrightarrow> length (set_col r (indexOf hs name) v) = length hs"
  using indexOf_bound [of hs name]
  by (cases "indexOf hs name") (simp_all add: set_col_def length_js_set_in)

lemma length_fold_fields:
  "length r = length hs \<Longrightarrow>
   length (fold (\<lambda>(name, v) r. set_col r (indexMap hs name) v) fs r) = length hs"
proof (induction fs arbitrary: r)
  case Nil
  then show ?case by simp
next
  case (Cons f fs)
  obtain name v where f: "f = (name, v)" by (cases f)
  from Cons.prems have "length (set_col r (indexMap hs name) v) = length hs"
    by (rule length_set_col_indexMap)
  then show ?case using Cons.IH f by simp
qed

lemma length_place_items: "length r = w \<Longrightarrow> length (place_items w f cap fl r) = w"
proof -
  have "length r = w \<Longrightarrow>
    length (fold (\<lambda>j r. if f + j < w then js_set Undef r (f + j) (fl ! j) else r) js r) = w"
    for js
    by (induction js arbitrary: r) (simp_all add: length_js_set_in)
  then show "length r = w \<Longrightarrow> length (place_items w f cap fl r) = w"
    unfolding place_items_def .
qed

lemma length_invoice_update_row:
  "length (invoice_update_row max_rows cpr headers i due docUrl pdfUrl d) = length headers"
  by (cases "indexOf headers ''Row 1 #''")
     (simp_all add: invoice_update_row_def Let_def length_fold_fields length_place_items)

lemma length_cn_fill_aux:
  "length r = w \<Longrightarrow> k + length hs \<le> w \<Longrightarrow>
   length (fold (\<lambda>(index, header) r. js_set Undef r index (g index header)) (enumerate k hs) r)
     = w"
proof (induction hs arbitrary: k r)
  case Nil
  then show ?case by simp
next
  case (Cons h hs)
  from Cons.prems have "length (js_set Undef r k (g k h)) = w"
    by (simp add: length_js_set_in)
  moreover from Cons.prems have "Suc k + length hs \<le> w" by simp
  ultimately show ?case using Cons.IH [of "js_set Undef r k (g k h)" "Suc k"] by simp
qed

lemma length_cn_fill_row: "length (cn_fill_row headers old i d) = length headers"
  unfolding cn_fill_row_def by (rule length_cn_fill_aux) simp_all

lemma length_cn_place_item: "length r = w \<Longrightarrow> length (cn_place_item w p r) = w"
  by (simp add: cn_place_item_def Let_def length_js_set_in)

lemma length_fold_cn_place:
  "length r = w \<Longrightarrow> length (fold (cn_place_item w) ps r) = w"
  by (induction ps arbitrary: r) (simp_all add: length_cn_place_item)

lemma length_cn_update_row:
  "length (cn_update_row headers old i docUrl pdfUrl d) = length headers"
  by (simp add: cn_update_row_def Let_def length_set_col_indexOf length_fold_cn_place
      length_cn_fill_row)

lemma takeWhile_not_shorter:
  "list_ex P xs \<Longrightarrow> length (takeWhile (\<lambda>x. \<not> P x) xs) < length xs"
  by (induction xs) auto

lemma first_index_bound: "first_index P xs = Some k \<Longrightarrow> k < length xs"
  using takeWhile_not_shorter [of P xs] by (auto simp: first_index_def split: if_splits)

text \<open>
  Claim C10. On a table as \<^verbatim>\<open>getValues\<close> returns it (every row as wide as the header
  row), the invoice update and the credit-note update leave every row of the table with
  the width it had: the row they write has exactly as many cells as the header row,
  whatever the number and the width of the submitted items, so item cells that would fall
  at or beyond the header width are dropped and never widen the row.
\<close>

theorem update_preserves_row_width:
  assumes "list_all (\<lambda>r. length r = length (hd table)) table"
  shows "map length (fst (updateInvoiceByIdFromData max_rows cpr rendered table i d))
           = map length table
         \<and> map length (fst (updateCreditNoteByIdFromData rendered table j c)) = map length table"
proof (cases table)
  case Nil
  then show ?thesis
    by (simp add: updateInvoiceByIdFromData_def updateCreditNoteByIdFromData_def)
next
  case (Cons headers rows)
  with assms have rect: "\<forall>r\<in>set rows. length r = length headers"
    by (simp add: list_all_iff)
  have upd: "map length (rows[k := r']) = map length rows"
    if "first_index P rows = Some k" "length r' = length headers" for k r' P
  proof -
    from that(1) have "k < length rows" by (rule first_index_bound)
    with rect that(2) show ?thesis by (simp add: map_update list_update_same_conv)
  qed
  have a: "map length (fst (updateInvoiceByIdFromData max_rows cpr rendered table i d))
             = map length table"
    unfolding updateInvoiceByIdFromData_def Cons
    by (simp add: upd length_invoice_update_row split: option.split prod.split)
  have b: "map length (fst (updateCreditNoteByIdFromData rendered table j c)) = map length table"
    unfolding updateCreditNoteByIdFromData_def Cons
    by (simp add: upd length_cn_update_row split: option.split prod.split)
  from a b show ?thesis by simp
qed

theorem update_preserves_row_width_witness:
  "list_all (\<lambda>r. length r = length (hd sample_sheet)) sample_sheet
   \<and> map length (fst (updateInvoiceByIdFromData 20 6 (Some (Str ''doc'', Str ''pdf''))
                        sample_sheet (Str ''u'') (sample_invoice 3)))
       = map length sample_sheet
   \<and> map length (fst (updateCreditNoteByIdFromData (Some (Str ''doc'', Str ''pdf''))
                        sample_sheet (Str ''u'') (sample_credit_note 3)))
       = map length sample_sheet"
proof -
  have h: "list_all (\<lambda>r. length r = length (hd sample_sheet)) sample_sheet"
    by (simp add: sample_sheet_def)
  from update_preserves_row_width [OF h] h show ?thesis by simp
qed

subsection \<open>Position stamps and the size of the item block\<close>

lemma length_escape_period: "length (escape_period r) = length r"
proof (cases "truthy (cell_at r 2)")
  case True
  then have "2 < length r" by (auto simp: cell_at_def split: if_splits)
  then show ?thesis
    by (simp add: escape_period_def js_set_def split: option.split)
next
  case False
  then show ?thesis by (simp add: escape_period_def)
qed

lemma length_stamp_position: "r \<noteq> [] \<Longrightarrow> length (stamp_position i r) = length r"
  by (simp add: stamp_position_def js_set_def)

lemma length_stamped_items: "length (stamped_items its) = length its"
  by (simp add: stamped_items_def)

lemma nth_stamped_items:
  "i < length its \<Longrightarrow> stamped_items its ! i = escape_period (stamp_position i (its ! i))"
  by (simp add: stamped_items_def nth_enumerate_eq)

lemma stamped_items_length_cpr:
  assumes "\<forall>r\<in>set its. length r = cpr" and "0 < cpr"
  shows "\<forall>r\<in>set (stamped_items its). length r = cpr"
proof
  fix r assume "r \<in> set (stamped_items its)"
  then obtain i where i: "i < length its" "r = stamped_items its ! i"
    by (auto simp: in_set_conv_nth length_stamped_items)
  from i(1) have "its ! i \<in> set its" by simp
  with assms have "length (its ! i) = cpr" "its ! i \<noteq> []" by auto
  with i show "length r = cpr"
    by (simp add: nth_stamped_items length_escape_period length_stamp_position)
qed

lemma length_concat_uniform:
  "\<forall>r\<in>set xs. length r = n \<Longrightarrow> length (concat xs) = length xs * n"
  by (induction xs) simp_all

lemma length_itemCells_stamped:
  assumes "\<forall>r\<in>set its. length r = cpr" and "0 < cpr"
  shows "length (itemCells_stamped its) = length its * cpr"
  using length_concat_uniform [OF stamped_items_length_cpr [OF assms]]
  by (simp add: itemCells_stamped_def length_stamped_items)

lemma length_flatItems_update: "length (flatItems_update cap its) = cap"
  by (simp add: flatItems_update_def Let_def)

lemma sample_items_uniform: "\<forall>r\<in>set (items (sample_invoice n)). length r = 6"
  by (simp add: sample_invoice_def sample_item_def)

text \<open>
  Claim C3, at an invoice with 21 six-cell items and \<^verbatim>\<open>MAX_ROWS = 20\<close>: the row that
  \<^verbatim>\<open>processFormFromData\<close> writes on creation holds all 21 items (21 + 126 cells, six more
  than the 141 columns of the layout), while the item block built by the update is cut
  to the 120 cells of 20 items.
\<close>

theorem create_keeps_excess_items:
  "map_option length (invoice_row uniqueId (sample_invoice 21)) = Some (21 + 21 * 6)
   \<and> length (flatItems_update (20 * 6) (items (sample_invoice 21))) = 20 * 6"
proof -
  have "length (itemCells_stamped (items (sample_invoice 21))) = length (items (sample_invoice 21)) * 6"
    by (rule length_itemCells_stamped [OF sample_items_uniform]) simp
  then have "length (itemCells_stamped (items (sample_invoice 21))) = 126"
    by (simp add: sample_invoice_def)
  moreover have "dueDate (sample_invoice 21) = Str ''15/02/2024''"
    by (simp add: sample_invoice_def)
  ultimately have "map_option length (invoice_row uniqueId (sample_invoice 21)) = Some (21 + 21 * 6)"
    by (simp add: invoice_row_def)
  then show ?thesis by (simp add: length_flatItems_update)
qed

text \<open>
  Claim C4, at an invoice whose only item carries 7 in its first cell: the row that
  \<^verbatim>\<open>saveInvoiceData\<close> writes keeps the 7 in the item's first cell (column 22), where the
  row that \<^verbatim>\<open>processFormFromData\<close> writes has the position 1.
\<close>

theorem saveInvoiceData_keeps_caller_position:
  "map_option (\<lambda>r. cell_at r 21)
     (saveInvoiceData_row calcTax calcTotal uniqueId (sample_invoice 1)) = Some (Str ''7'')
   \<and> map_option (\<lambda>r. cell_at r 21) (invoice_row uniqueId (sample_invoice 1)) = Some (Str ''1'')"
proof -
  have a: "map_option (\<lambda>r. cell_at r 21)
     (saveInvoiceData_row calcTax calcTotal uniqueId (sample_invoice 1)) = Some (Str ''7'')"
    by (simp add: saveInvoiceData_row_def sample_invoice_def sample_item_def cell_at_def
        itemCells_saveInvoiceData_def escape_period_def js_set_def)
  have b: "map_option (\<lambda>r. cell_at r 21) (invoice_row uniqueId (sample_invoice 1)) = Some (Str ''1'')"
    by (simp add: invoice_row_def sample_invoice_def sample_item_def cell_at_def
        itemCells_stamped_def stamped_items_def stamp_position_def escape_period_def js_set_def
        digits_of.simps)
  from a b show ?thesis by simp
qed

subsection \<open>Project names up to case and surrounding white space\<close>









lemma sample_apollo_details:
  "getProjectDetailsFromData sample_columns sample_symbols sample_lists (Str ''Apollo'')
   = Inr \<lparr> pd_clientName = Str ''Client One'', pd_clientNumber = Str ''HRB 123'',
           pd_clientAddress = Str ''Street 1'', pd_tax = Str ''15'', pd_currency = Str ''$'',
           pd_paymentDelay = Num 30, pd_dayType = Str ''W'',
           pd_bankDetails1 = Str ''Bank A, IBAN 1'', pd_bankDetails2 = Str ''Bank B, IBAN 2'',
           pd_ourCompany = Str ''Us'', pd_templateId = Str ''TEMPLATE-ID-STANDARD'' \<rparr>"
  by code_simp


subsection \<open>Deleting a record whose artifacts are gone\<close>

lemma trim_Nil: "js_trim [] = []"
  by (simp add: js_trim_def)

lemma delete_artifact_Str:
  "delete_artifact msg (Str s) (drv, notes)
   = Inr (trash_link drv s, notes @ failure_note msg drv s)"
proof (cases "s = []")
  case True
  then show ?thesis
    by (simp add: delete_artifact_def trash_link_def failure_note_def trim_Nil split: option.split)
next
  case False
  show ?thesis
  proof (cases "js_trim s = []")
    case True
    with False show ?thesis
      by (simp add: delete_artifact_def trash_link_def failure_note_def split: option.split)
  next
    case nb: False
    show ?thesis
    proof (cases "match_file_id s")
      case None
      with False nb show ?thesis
        by (simp add: delete_artifact_def trash_link_def failure_note_def dead_link_def
            extractFileIdFromUrl_def)
    next
      case (Some fid)
      with False nb show ?thesis
        by (simp add: delete_artifact_def trash_link_def failure_note_def dead_link_def
            extractFileIdFromUrl_def trash_file_def)
    qed
  qed
qed

lemma files_trash_link: "files (trash_link drv s) = files drv"
  by (simp add: trash_link_def split: option.split)

lemma failure_note_trash_link:
  "failure_note msg (trash_link drv s) t = failure_note msg drv t"
  by (cases "match_file_id t") (simp_all add: failure_note_def dead_link_def files_trash_link)

text \<open>
  Claim C7. Deleting by a valid id a record that is in the sheet, whose two link cells hold
  strings, always succeeds: the row of the record is removed, the list cache is
  invalidated, each link is tried on its own (the file of a link that resolves is put in
  the trash whether or not the other one failed), and the note lists one sentence for every
  non-blank link that did not resolve. With two dead links the note holds both sentences.
\<close>

theorem delete_succeeds_despite_dead_links:
  assumes "\<not> invalid_id i"
    and "w_sheet w = headers # rows"
    and "indexOf headers ''ID'' = Some idCol"
    and "first_index (\<lambda>r. strict_eq (cell_at r idCol) i) rows = Some k"
    and "js_or (cell_at_opt (rows ! k) (indexOf headers ''Google Doc Link'')) (Str '''') = Str du"
    and "js_or (cell_at_opt (rows ! k) (indexOf headers ''PDF Link'')) (Str '''') = Str pu"
  shows "deleteInvoiceByIdFromData w i =
           (\<lparr> w_sheet = headers # (take k rows @ drop (Suc k) rows),
              w_drive = trash_link (trash_link (w_drive w) du) pu,
              w_cache = removeAll ''invoiceList'' (w_cache w) \<rparr>,
            Succeeded
              (if failure_note ''Google Doc already deleted or not found.'' (w_drive w) du @
                  failure_note ''PDF already deleted or not found.'' (w_drive w) pu = []
               then None
               else Some (join_space
                      (failure_note ''Google Doc already deleted or not found.'' (w_drive w) du @
                       failure_note ''PDF already deleted or not found.'' (w_drive w) pu))))"
  using assms
  by (simp add: deleteInvoiceByIdFromData_def Let_def delete_artifact_Str
      failure_note_trash_link)

lemma sample_world_sheet:
  "w_sheet sample_world =
     [Str ''ID'', Str ''Project Name'', Str ''Google Doc Link'', Str ''PDF Link''] #
     [ [Str ''id-1'', Str ''Apollo'',
        Str ''https://docs.example.com/document/d/1AbCdEfGhIjKlMnOpQrStUvWxYz012345/edit'',
        Str ''https://drive.example.com/file/d/9ZyXwVuTsRqPoNmLkJiHgFeDcBa98765/view''],
       [Str ''id-2'', Str ''Gemini'', Str '''', Str ''''] ]"
  by (simp add: sample_world_def)

theorem delete_succeeds_despite_dead_links_witness:
  "\<not> invalid_id (Str ''id-1'')
   \<and> dead_link (w_drive sample_world)
         ''https://docs.example.com/document/d/1AbCdEfGhIjKlMnOpQrStUvWxYz012345/edit''
   \<and> dead_link (w_drive sample_world)
         ''https://drive.example.com/file/d/9ZyXwVuTsRqPoNmLkJiHgFeDcBa98765/view''
   \<and> deleteInvoiceByIdFromData sample_world (Str ''id-1'') =
        (\<lparr> w_sheet =
             [ [Str ''ID'', Str ''Project Name'', Str ''Google Doc Link'', Str ''PDF Link''],
               [Str ''id-2'', Str ''Gemini'', Str '''', Str ''''] ],
           w_drive = \<lparr> files = [''some-other-file-id-0123456789''], trashed = [] \<rparr>,
           w_cache = [''creditNoteList''] \<rparr>,
         Succeeded (Some
           ''Google Doc already deleted or not found. PDF already deleted or not found.''))"
proof -
  let ?hs = "[Str ''ID'', Str ''Project Name'', Str ''Google Doc Link'', Str ''PDF Link'']"
  let ?du = "''https://docs.example.com/document/d/1AbCdEfGhIjKlMnOpQrStUvWxYz012345/edit''"
  let ?pu = "''https://drive.example.com/file/d/9ZyXwVuTsRqPoNmLkJiHgFeDcBa98765/view''"
  let ?rows = "[ [Str ''id-1'', Str ''Apollo'', Str ?du, Str ?pu],
                 [Str ''id-2'', Str ''Gemini'', Str '''', Str ''''] ]"
  have h1: "\<not> invalid_id (Str ''id-1'')" by code_simp
  have h3: "indexOf ?hs ''ID'' = Some 0" by code_simp
  have h4: "first_index (\<lambda>r. strict_eq (cell_at r 0) (Str ''id-1'')) ?rows = Some 0"
    by code_simp
  have h5: "js_or (cell_at_opt (?rows ! 0) (indexOf ?hs ''Google Doc Link'')) (Str '''') = Str ?du"
    by code_simp
  have h6: "js_or (cell_at_opt (?rows ! 0) (indexOf ?hs ''PDF Link'')) (Str '''') = Str ?pu"
    by code_simp
  have d1: "dead_link (w_drive sample_world) ?du" by code_simp
  have d2: "dead_link (w_drive sample_world) ?pu" by code_simp
  have n1: "failure_note ''Google Doc already deleted or not found.'' (w_drive sample_world) ?du
              = [''Google Doc already deleted or not found.'']" by code_simp
  have n2: "failure_note ''PDF already deleted or not found.'' (w_drive sample_world) ?pu
              = [''PDF already deleted or not found.'']" by code_simp
  have t: "trash_link (trash_link (w_drive sample_world) ?du) ?pu
             = \<lparr> files = [''some-other-file-id-0123456789''], trashed = [] \<rparr>" by code_simp
  have c: "removeAll ''invoiceList'' (w_cache sample_world) = [''creditNoteList'']" by code_simp
  from delete_succeeds_despite_dead_links [OF h1 sample_world_sheet h3 h4 h5 h6]
  have "deleteInvoiceByIdFromData sample_world (Str ''id-1'') =
        (\<lparr> w_sheet =
             [ [Str ''ID'', Str ''Project Name'', Str ''Google Doc Link'', Str ''PDF Link''],
               [Str ''id-2'', Str ''Gemini'', Str '''', Str ''''] ],
           w_drive = \<lparr> files = [''some-other-file-id-0123456789''], trashed = [] \<rparr>,
           w_cache = [''creditNoteList''] \<rparr>,
         Succeeded (Some
           ''Google Doc already deleted or not found. PDF already deleted or not found.''))"
    by (simp add: n1 n2 t c)
  with h1 d1 d2 show ?thesis by simp
qed

subsection \<open>Choosing the item table\<close>









subsection \<open>The template of a credit note\<close>

text \<open>
  Claim C6, as the code has it. Whenever \<^verbatim>\<open>processCreditNoteCreation\<close> reaches the
  renderer, the template id it passes is the id written into
  \<^verbatim>\<open>processCreditNoteFormFromData\<close>, whatever the project and the Lists sheet; the call
  made by \<^verbatim>\<open>saveCreditNoteData\<close> has for its \<^verbatim>\<open>templateId\<close> argument the template id
  that the configuration lookup returns for the submitted project.
\<close>

theorem credit_note_template_id:
  "(cr_call (processCreditNoteCreation cols symbols default_folder createDoc lists_table
               cn_sheet uniqueId d) = Some call
      \<longrightarrow> rc_templateId call = Str hardcoded_templateId)
   \<and> (saveCreditNoteData_call cols symbols default_folder lists_table invc = Inr call'
      \<longrightarrow> (\<exists>details. getProjectDetailsFromData cols symbols lists_table (projectName invc)
                         = Inr details
                     \<and> rc_templateId call' = pd_templateId details))"
proof -
  have a: "cr_call (processCreditNoteFormFromData cols default_folder createDoc lists_table
                      cn_sheet uniqueId d) = Some call
           \<Longrightarrow> rc_templateId call = Str hardcoded_templateId"
    by (auto simp: processCreditNoteFormFromData_def Let_def split: option.splits prod.splits)
  have b: "cr_call (processCreditNoteCreation cols symbols default_folder createDoc lists_table
                      cn_sheet uniqueId d) = Some call
           \<Longrightarrow> rc_templateId call = Str hardcoded_templateId"
    using a by (simp add: processCreditNoteCreation_def split: if_splits sum.splits)
  have c: "saveCreditNoteData_call cols symbols default_folder lists_table invc = Inr call'
           \<Longrightarrow> \<exists>details. getProjectDetailsFromData cols symbols lists_table (projectName invc)
                         = Inr details
                     \<and> rc_templateId call' = pd_templateId details"
    by (auto simp: saveCreditNoteData_call_def split: option.splits sum.splits if_splits)
  from b c show ?thesis by blast
qed

lemma cr_call_processCreditNoteFormFromData:
  "cr_call (processCreditNoteFormFromData cols default_folder createDoc lists_table cn_sheet
              uniqueId d)
   = Some \<lparr> rc_templateId = Str hardcoded_templateId,
            rc_folderId = getProjectFolderId cols default_folder lists_table (cn_projectName d) \<rparr>"
  by (simp add: processCreditNoteFormFromData_def Let_def split: option.split prod.split)

lemma sample_credit_note_valid: "validateCreditNoteData (sample_credit_note 2)"
  by code_simp

lemma sample_credit_note_project: "cn_projectName (sample_credit_note n) = Str ''Apollo''"
  by (simp add: sample_credit_note_def)

lemma sample_invoice_project: "projectName (sample_invoice n) = Str ''Apollo''"
  by (simp add: sample_invoice_def)

lemma sample_invoice_dueDate: "dueDate (sample_invoice n) = Str ''15/02/2024''"
  by (simp add: sample_invoice_def)

lemma apollo_not_blank: "js_trim ''Apollo'' \<noteq> []"
  by code_simp

lemma sample_apollo_folder:
  "getProjectFolderId sample_columns (Str ''DEFAULT-FOLDER'') sample_lists (Str ''Apollo'')
   = Str ''DEFAULT-FOLDER''"
  by code_simp

lemma sample_apollo_validated:
  "map_sum (\<lambda>e. ()) pd_templateId
     (getProjectDetailsWithValidation sample_columns sample_symbols sample_lists (Str ''Apollo''))
   = Inr (Str ''TEMPLATE-ID-STANDARD'')"
  by (simp add: getProjectDetailsWithValidation_def sample_apollo_details apollo_not_blank)

lemma sample_creation_call:
  "cr_call (processCreditNoteCreation sample_columns sample_symbols (Str ''DEFAULT-FOLDER'')
              sample_createDoc sample_lists [] (Str ''u'') (sample_credit_note 2))
   = Some \<lparr> rc_templateId = Str ''1yCKAx3nyIz-L_u3FPSK1zMof5Mo0m2-gsNzl1cCQsuQ'',
            rc_folderId = Str ''DEFAULT-FOLDER'' \<rparr>"
  by (simp add: processCreditNoteCreation_def sample_credit_note_valid
      sample_credit_note_project getProjectDetailsWithValidation_def sample_apollo_details
      apollo_not_blank sample_apollo_folder cr_call_processCreditNoteFormFromData
      hardcoded_templateId_def)

lemma sample_save_call:
  "saveCreditNoteData_call sample_columns sample_symbols (Str ''DEFAULT-FOLDER'') sample_lists
     (sample_invoice 2)
   = Inr \<lparr> rc_templateId = Str ''TEMPLATE-ID-STANDARD'', rc_folderId = Str ''DEFAULT-FOLDER'' \<rparr>"
  by (simp add: saveCreditNoteData_call_def sample_invoice_project sample_invoice_dueDate
      sample_apollo_details sample_apollo_folder)

theorem credit_note_template_id_witness:
  "cr_call (processCreditNoteCreation sample_columns sample_symbols (Str ''DEFAULT-FOLDER'')
              sample_createDoc sample_lists [] (Str ''u'') (sample_credit_note 2))
     = Some \<lparr> rc_templateId = Str ''1yCKAx3nyIz-L_u3FPSK1zMof5Mo0m2-gsNzl1cCQsuQ'',
              rc_folderId = Str ''DEFAULT-FOLDER'' \<rparr>
   \<and> rc_templateId \<lparr> rc_templateId = Str ''1yCKAx3nyIz-L_u3FPSK1zMof5Mo0m2-gsNzl1cCQsuQ'',
                      rc_folderId = Str ''DEFAULT-FOLDER'' \<rparr> = Str hardcoded_templateId
   \<and> saveCreditNoteData_call sample_columns sample_symbols (Str ''DEFAULT-FOLDER'') sample_lists
        (sample_invoice 2)
     = Inr \<lparr> rc_templateId = Str ''TEMPLATE-ID-STANDARD'', rc_folderId = Str ''DEFAULT-FOLDER'' \<rparr>
   \<and> (\<exists>details. getProjectDetailsFromData sample_columns sample_symbols sample_lists
                    (projectName (sample_invoice 2)) = Inr details
                \<and> pd_templateId details = Str ''TEMPLATE-ID-STANDARD'')"
  using credit_note_template_id [of sample_columns sample_symbols "Str ''DEFAULT-FOLDER''"
      sample_createDoc sample_lists "[]" "Str ''u''" "sample_credit_note 2"
      "\<lparr> rc_templateId = Str ''1yCKAx3nyIz-L_u3FPSK1zMof5Mo0m2-gsNzl1cCQsuQ'',
         rc_folderId = Str ''DEFAULT-FOLDER'' \<rparr>"
      "sample_invoice 2"
      "\<lparr> rc_templateId = Str ''TEMPLATE-ID-STANDARD'', rc_folderId = Str ''DEFAULT-FOLDER'' \<rparr>"]
    sample_creation_call sample_save_call
  by auto

text \<open>
  Claim C6 as stated fails: for the project Apollo the configuration lookup supplies the
  template id \<open>TEMPLATE-ID-STANDARD\<close>, and the renderer is called with the hardcoded id.
\<close>

theorem credit_note_template_is_hardcoded:
  "map_sum (\<lambda>e. ()) pd_templateId
     (getProjectDetailsWithValidation sample_columns sample_symbols sample_lists
        (cn_projectName (sample_credit_note 2)))
     = Inr (Str ''TEMPLATE-ID-STANDARD'')
   \<and> map_option rc_templateId
       (cr_call (processCreditNoteCreation sample_columns sample_symbols (Str ''DEFAULT-FOLDER'')
                   sample_createDoc sample_lists [] (Str ''u'') (sample_credit_note 2)))
     = Some (Str ''1yCKAx3nyIz-L_u3FPSK1zMof5Mo0m2-gsNzl1cCQsuQ'')"
  by (simp add: sample_credit_note_project sample_apollo_validated sample_creation_call)

subsection \<open>Fixed-decimal texts and the numbers they denote\<close>


























subsection \<open>Reading back what a creation wrote\<close>

lemma slice_concat_nth:
  assumes "\<forall>r\<in>set rows. length r = cpr" and "i < length rows"
  shows "take cpr (drop (i * cpr) (concat rows @ pad)) = rows ! i"
  using assms
proof (induction rows arbitrary: i)
  case Nil
  then show ?case by simp
next
  case (Cons r rs)
  show ?case
  proof (cases i)
    case 0
    with Cons.prems show ?thesis by simp
  next
    case (Suc j)
    with Cons.prems have "take cpr (drop (j * cpr) (concat rs @ pad)) = rs ! j"
      by (intro Cons.IH) simp_all
    with Suc Cons.prems show ?thesis by simp
  qed
qed

lemma slice_beyond:
  assumes "\<forall>r\<in>set rows. length r = cpr" and "length rows \<le> i"
  shows "set (take cpr (drop (i * cpr) (concat rows @ pad))) \<subseteq> set pad"
proof -
  have "length (concat rows) = length rows * cpr"
    using assms(1) by (induction rows) simp_all
  with assms(2) have "length (concat rows) \<le> i * cpr" by simp
  then have "drop (i * cpr) (concat rows @ pad) = drop (i * cpr - length (concat rows)) pad"
    by simp
  then show ?thesis
    using set_take_subset set_drop_subset by (metis subset_trans)
qed

lemma parse_items_roundtrip:
  assumes "length base = start"
    and "\<forall>r\<in>set rows. length r = cpr"
    and "\<forall>r\<in>set rows. list_ex nonblank r"
    and "length rows \<le> mr"
    and "\<forall>c\<in>set pad. \<not> nonblank c"
  shows "parse_items start mr cpr (base @ concat rows @ pad) = rows"
proof -
  let ?f = "\<lambda>i. slice (base @ concat rows @ pad) (start + i * cpr) cpr"
  have f: "?f i = take cpr (drop (i * cpr) (concat rows @ pad))" for i
    using assms(1) by (simp add: slice_def)
  have "map ?f [0..<length rows] = map (\<lambda>i. rows ! i) [0..<length rows]"
  proof (rule map_cong [OF refl])
    fix i assume "i \<in> set [0..<length rows]"
    then have i: "i < length rows" by simp
    show "?f i = rows ! i" unfolding f by (rule slice_concat_nth [OF assms(2) i])
  qed
  then have first: "map ?f [0..<length rows] = rows" by (simp add: map_nth)
  have rest: "filter (list_ex nonblank) (map ?f [length rows..<mr]) = []"
  proof -
    have "\<not> list_ex nonblank (?f i)" if "length rows \<le> i" for i
    proof -
      have "set (?f i) \<subseteq> set pad" unfolding f by (rule slice_beyond [OF assms(2) that])
      with assms(5) show ?thesis unfolding list_ex_iff by blast
    qed
    then show ?thesis by (auto simp: filter_empty_conv)
  qed
  have "[0..<mr] = [0..<length rows] @ [length rows..<mr]"
    using assms(4) by (metis le_add_diff_inverse upt_add_eq_append zero_le)
  then have "parse_items start mr cpr (base @ concat rows @ pad)
        = filter (list_ex nonblank) (map ?f [0..<length rows])
          @ filter (list_ex nonblank) (map ?f [length rows..<mr])"
    by (simp add: parse_items_def)
  also have "\<dots> = filter (list_ex nonblank) rows" by (simp only: first rest append_Nil2)
  also have "\<dots> = rows" using assms(3) by simp
  finally show ?thesis .
qed
lemma nonblank_position: "nonblank (Str (digits_of n))"
proof -
  obtain c where c: "c \<in> set (digits_of n)"
    using digits_of_digits [of n] by (cases "digits_of n") auto
  then have "\<not> is_ws c" using digits_of_digits [of n] digit_not_ws by blast
  with c have "js_trim (digits_of n) \<noteq> []" by (rule trim_nonempty)
  moreover have "digits_of n \<noteq> []" using digits_of_digits [of n] by simp
  ultimately show ?thesis by (simp add: nonblank_def)
qed

lemma hd_escape_period: "r \<noteq> [] \<Longrightarrow> escape_period r ! 0 = r ! 0"
  by (cases "toString (cell_at r 2)")
     (auto simp: escape_period_def js_set_def cell_at_def split: if_splits)

lemma hd_stamp_position: "r \<noteq> [] \<Longrightarrow> stamp_position i r ! 0 = Str (digits_of (i + 1))"
  by (simp add: stamp_position_def js_set_def)

lemma stamped_items_nonblank:
  assumes "\<forall>r\<in>set its. length r = cpr" and "0 < cpr"
  shows "\<forall>r\<in>set (stamped_items its). list_ex nonblank r"
proof
  fix r assume "r \<in> set (stamped_items its)"
  then obtain i where i: "i < length its" "r = stamped_items its ! i"
    by (auto simp: in_set_conv_nth length_stamped_items)
  from i(1) have "its ! i \<in> set its" by simp
  with assms have ne: "its ! i \<noteq> []" by auto
  then have sne: "stamp_position i (its ! i) \<noteq> []"
    using length_stamp_position [of "its ! i" i] by auto
  have r: "r = escape_period (stamp_position i (its ! i))"
    using i by (simp add: nth_stamped_items)
  have "r ! 0 = Str (digits_of (i + 1))"
    unfolding r using hd_escape_period [OF sne] hd_stamp_position [OF ne] by simp
  moreover have "r \<noteq> []" using sne length_escape_period [of "stamp_position i (its ! i)"] r
    by auto
  ultimately have "Str (digits_of (i + 1)) \<in> set r"
    by (metis length_greater_0_conv nth_mem)
  then show "list_ex nonblank r"
    using nonblank_position unfolding list_ex_iff by blast
qed

lemma strict_eq_Str: "strict_eq c (Str u) = (c = Str u)"
  by (cases c) auto

lemma find_last:
  "\<forall>x\<in>set xs. \<not> P x \<Longrightarrow> P y \<Longrightarrow> find P (xs @ [y]) = Some y"
  by (induction xs) simp_all

lemma blank_not_nonblank: "\<not> nonblank (Str '''')"
  by (simp add: nonblank_def)

lemma cell_at_padded: "k < length r \<Longrightarrow> cell_at (r @ p) k = r ! k"
  by (simp add: cell_at_def nth_append)

lemma getValues_map:
  "getValues sh = map (\<lambda>r. r @ replicate (foldr max (map length sh) 0 - length r) (Str '''')) sh"
  by (simp add: getValues_def Let_def)
lemma backfill_links:
  "length b = 19 \<Longrightarrow>
   js_set Undef (js_set Undef (b @ p # q # ic) 19 x) 20 y = b @ x # y # ic"
  by (simp add: js_set_def list_update_append)

lemma cell_at_prefix: "k < length l \<Longrightarrow> cell_at (l @ rest) k = l ! k"
  by (simp add: cell_at_def nth_append)

lemma valid_id_not_empty: "\<not> invalid_id (Str u) \<Longrightarrow> u \<noteq> []"
  by (auto simp: invalid_id_def)

lemma padded_other_row:
  assumes "cell_at r 0 \<noteq> Str u" and "u \<noteq> []"
  shows "\<not> strict_eq (cell_at_opt (r @ replicate k (Str '''')) (Some 0)) (Str u)"
proof (cases r)
  case Nil
  with assms(2) show ?thesis
    by (cases k) (auto simp: strict_eq_Str cell_at_opt_def cell_at_def)
next
  case (Cons c cs)
  with assms(1) show ?thesis
    by (simp add: strict_eq_Str cell_at_opt_def cell_at_def)
qed

lemma indexMap_from_blank_padding:
  "name \<noteq> [] \<Longrightarrow>
   indexMap_from k (hs @ replicate n (Str '''')) name = indexMap_from k hs name"
proof (induction hs arbitrary: k)
  case Nil
  have "indexMap_from j (replicate n (Str '''')) name = None" for j
    using Nil by (induction n arbitrary: j) auto
  then show ?case by simp
next
  case (Cons h hs)
  then show ?case by simp
qed

lemma layout_padded:
  "invoice_layout hs \<Longrightarrow> invoice_layout (hs @ replicate n (Str ''''))"
  by (simp add: invoice_layout_def indexMap_def indexMap_from_blank_padding)

lemma invoice_roundtrip_aux:
  assumes layout:
      "invoice_layout (hd (if sheet = [] then [invoice_headers max_rows] else sheet))"
    and due: "dueDate d = Str due"
    and valid: "\<not> invalid_id (Str u)"
    and fresh: "list_all (\<lambda>r. cell_at r 0 \<noteq> Str u) (drop 1 sheet)"
    and count: "length (items d) \<le> max_rows"
    and width: "list_all (\<lambda>it. length it = cpr) (items d)"
    and cpr: "0 < cpr"
  shows "getInvoiceDataByIdFromData max_rows cpr fmtDate
           (getValues (fst (processFormFromData max_rows (Str u) rendered sheet d))) (Str u)
         = Some (stored_invoice fmtDate due d)"
proof -
  define sheet1 where "sheet1 = (if sheet = [] then [invoice_headers max_rows] else sheet)"
  define base where "base =
     [ Str u, projectName d, invoiceNumber d, clientName d, clientAddress d, clientNumber d,
       new_Date (invoiceDate d), DateC due,
       Str (toFixed 0 (parseFloat_or0 (tax d))),
       Str (toFixed 2 (parseFloat_or0 (subtotal d))),
       Str (toFixed 2 (taxAmount_of (subtotal d) (tax d))),
       Str (toFixed 2 (totalAmount_of (subtotal d) (tax d))),
       (if is_usd d then Str (parseFloat_toFixed 4 (exchangeRate d)) else Str ''''),
       currency d,
       (if is_usd d then Str (parseFloat_toFixed 2 (amountInEUR d)) else Str ''''),
       bankDetails1 d, bankDetails2 d, js_or (ourCompany d) (Str ''''),
       js_or (comment d) (Str '''') ]"
  define ic where "ic = itemCells_stamped (items d)"
  have lb: "length base = 19" by (simp add: base_def)
  have row: "invoice_row (Str u) d = Some (base @ Str '''' # Str '''' # ic)"
    by (simp add: invoice_row_def due base_def ic_def)
  obtain x19 x20 where T:
    "fst (processFormFromData max_rows (Str u) rendered sheet d)
       = sheet1 @ [base @ x19 # x20 # ic]"
  proof (cases rendered)
    case None
    then have "fst (processFormFromData max_rows (Str u) rendered sheet d)
       = sheet1 @ [base @ Str '''' # Str '''' # ic]"
      by (simp add: processFormFromData_def Let_def row sheet1_def)
    then show ?thesis by (rule that)
  next
    case (Some p)
    obtain docUrl pdfUrl where p: "p = (docUrl, pdfUrl)" by (cases p)
    have "fst (processFormFromData max_rows (Str u) rendered sheet d)
       = sheet1 @ [base @ docUrl # pdfUrl # ic]"
      by (simp add: processFormFromData_def Let_def row sheet1_def Some p
          backfill_links [OF lb])
    then show ?thesis by (rule that)
  qed
  define R where "R = base @ x19 # x20 # ic"
  obtain h rest where s1: "sheet1 = h # rest" and rest: "rest = drop 1 sheet"
    by (cases sheet) (auto simp: sheet1_def)
  define W where "W = foldr max (map length (sheet1 @ [R])) 0"
  define pad where "pad = (\<lambda>r :: row. r @ replicate (W - length r) (Str ''''))"
  have gv: "getValues (fst (processFormFromData max_rows (Str u) rendered sheet d))
              = pad h # (map pad rest @ [pad R])"
    by (simp add: T getValues_map R_def [symmetric] W_def pad_def s1)
  have "invoice_layout h" using layout by (simp add: sheet1_def [symmetric] s1)
  then have lay: "invoice_layout (pad h)" unfolding pad_def by (rule layout_padded)
  have une: "u \<noteq> []" using valid by (rule valid_id_not_empty)
  have others: "\<forall>x\<in>set (map pad rest). \<not> strict_eq (cell_at_opt x (Some 0)) (Str u)"
  proof
    fix x assume "x \<in> set (map pad rest)"
    then obtain r where r: "r \<in> set rest" "x = pad r" by auto
    with fresh rest have "cell_at r 0 \<noteq> Str u" by (simp add: list_all_iff)
    then show "\<not> strict_eq (cell_at_opt x (Some 0)) (Str u)"
      unfolding r(2) pad_def using une by (rule padded_other_row)
  qed
  have mine: "strict_eq (cell_at_opt (pad R) (Some 0)) (Str u)"
    by (simp add: pad_def R_def base_def cell_at_opt_def cell_at_def)
  have found: "find_row_strict (Some 0) (Str u) (map pad rest @ [pad R]) = Some (pad R)"
    unfolding find_row_strict_def using others mine by (rule find_last)
  have idx: "indexMap (pad h) ''ID'' = Some 0" using lay by (simp add: invoice_layout_def)
  have res: "getInvoiceDataByIdFromData max_rows cpr fmtDate
           (getValues (fst (processFormFromData max_rows (Str u) rendered sheet d))) (Str u)
         = Some (invoice_of_row max_rows cpr fmtDate (pad h) (pad R))"
    by (simp add: getInvoiceDataByIdFromData_def gv valid idx found)
  have w: "\<forall>r\<in>set (items d). length r = cpr" using width by (simp add: list_all_iff)
  have padR: "pad R = (base @ [x19, x20]) @ concat (stamped_items (items d))
                        @ replicate (W - length R) (Str '''')"
    by (simp add: pad_def R_def ic_def itemCells_stamped_def)
  have its: "parse_items 21 max_rows cpr (pad R) = stamped_items (items d)"
    unfolding padR
  proof (rule parse_items_roundtrip)
    show "length (base @ [x19, x20]) = 21" by (simp add: lb)
    show "\<forall>r\<in>set (stamped_items (items d)). length r = cpr"
      by (rule stamped_items_length_cpr [OF w cpr])
    show "\<forall>r\<in>set (stamped_items (items d)). list_ex nonblank r"
      by (rule stamped_items_nonblank [OF w cpr])
    show "length (stamped_items (items d)) \<le> max_rows"
      using count by (simp add: length_stamped_items)
    show "\<forall>c\<in>set (replicate (W - length R) (Str '''')). \<not> nonblank c"
      by (simp add: blank_not_nonblank)
  qed
  have cells: "cell_at (pad R) k = base ! k" if "k < 19" for k
    using that by (simp add: pad_def R_def cell_at_def nth_append lb)
  have "invoice_of_row max_rows cpr fmtDate (pad h) (pad R) = stored_invoice fmtDate due d"
    using lay
    by (simp add: invoice_of_row_def stored_invoice_def invoice_layout_def cell_at_opt_def
        cells its) (simp add: base_def)
  with res show ?thesis by simp
qed

text \<open>
  Claim C1, as the code has it. Let the header row of the sheet, as read, name each field
  at the position where the creation writes it; let the due date be a string, the id a
  fresh non-blank string, and let the invoice have at most \<^verbatim>\<open>MAX_ROWS\<close> items of exactly
  \<^verbatim>\<open>COLUMNS_PER_ROW\<close> cells each. Then reading the invoice back by its id, after
  \<^verbatim>\<open>processFormFromData\<close> has written it, gives \<open>stored_invoice\<close>: the text fields as
  submitted (an absent company or comment as the empty string), the dates as Date objects
  passed through \<^verbatim>\<open>formatDateForInput\<close>, tax rate, subtotal and total in fixed-decimal
  form (the total recomputed), exchange rate and EUR amount only when the currency is the
  dollar, and the items in their order, each with its first cell restamped and its period
  cell escaped.
\<close>

theorem invoice_roundtrip:
  assumes "invoice_layout (hd (if sheet = [] then [invoice_headers max_rows] else sheet))"
    and "dueDate d = Str due"
    and "\<not> invalid_id (Str u)"
    and "list_all (\<lambda>r. cell_at r 0 \<noteq> Str u) (drop 1 sheet)"
    and "length (items d) \<le> max_rows"
    and "list_all (\<lambda>it. length it = cpr) (items d)"
    and "0 < cpr"
  shows "getInvoiceDataByIdFromData max_rows cpr fmtDate
           (getValues (fst (processFormFromData max_rows (Str u) rendered sheet d))) (Str u)
         = Some (stored_invoice fmtDate due d)"
  using assms by (rule invoice_roundtrip_aux)
lemma invoice_headers_2_layout: "invoice_layout (invoice_headers 2)"
  by (simp add: invoice_layout_def invoice_headers_def baseHeaders_def itemHeaders_def
      indexMap_def digits_of.simps upt_rec)

lemma id_u_valid: "\<not> invalid_id (Str ''u'')"
  by code_simp

lemma sample_invoice_items_count: "length (items (sample_invoice 2)) \<le> 2"
  by (simp add: sample_invoice_def)

lemma sample_invoice_items_width: "list_all (\<lambda>it. length it = 6) (items (sample_invoice 2))"
  by (simp add: sample_invoice_def sample_item_def list_all_iff)

theorem invoice_roundtrip_witness:
  "invoice_layout (hd (if ([] :: sheet_table) = [] then [invoice_headers 2] else []))
   \<and> dueDate (sample_invoice 2) = Str ''15/02/2024''
   \<and> \<not> invalid_id (Str ''u'')
   \<and> length (items (sample_invoice 2)) \<le> 2
   \<and> list_all (\<lambda>it. length it = 6) (items (sample_invoice 2))
   \<and> getInvoiceDataByIdFromData 2 6 (\<lambda>c. c)
         (getValues (fst (processFormFromData 2 (Str ''u'') (Some (Str ''doc'', Str ''pdf'')) []
                            (sample_invoice 2))))
         (Str ''u'')
       = Some (stored_invoice (\<lambda>c. c) ''15/02/2024'' (sample_invoice 2))"
proof -
  have h1: "invoice_layout (hd (if ([] :: sheet_table) = [] then [invoice_headers 2] else []))"
    by (simp add: invoice_headers_2_layout)
  have h4: "list_all (\<lambda>r. cell_at r 0 \<noteq> Str ''u'') (drop 1 ([] :: sheet_table))" by simp
  have h7: "(0::nat) < 6" by simp
  from invoice_roundtrip [OF h1 sample_invoice_dueDate id_u_valid h4
      sample_invoice_items_count sample_invoice_items_width h7]
    h1 sample_invoice_dueDate [of 2] id_u_valid sample_invoice_items_count
    sample_invoice_items_width
  show ?thesis by (intro conjI)
qed

text \<open>
  Claim C1 as stated fails on a header field: an invoice submitted with the tax rate 7.5
  is read back with the tax rate 8, the rate being stored with no decimals.
\<close>

lemma parse_7_5: "parseFloat_or0 (Str ''7.5'') = 15 / 2"
  by code_simp

lemma toFixed_0_7_5: "toFixed 0 (15 / 2) = ''8''"
  by (simp add: toFixed_def Let_def digits_of.simps)

theorem invoice_tax_rate_not_read_back:
  "tax ((sample_invoice 2)\<lparr> tax := Str ''7.5'' \<rparr>) = Str ''7.5''
   \<and> map_option tax
       (getInvoiceDataByIdFromData 2 6 (\<lambda>c. c)
          (getValues (fst (processFormFromData 2 (Str ''u'') (Some (Str ''doc'', Str ''pdf'')) []
                             ((sample_invoice 2)\<lparr> tax := Str ''7.5'' \<rparr>))))
          (Str ''u''))
     = Some (Str ''8'')"
proof -
  let ?d = "(sample_invoice 2)\<lparr> tax := Str ''7.5'' \<rparr>"
  have h1: "invoice_layout (hd (if ([] :: sheet_table) = [] then [invoice_headers 2] else []))"
    by (simp add: invoice_headers_2_layout)
  have h2: "dueDate ?d = Str ''15/02/2024''" by (simp add: sample_invoice_def)
  have h4: "list_all (\<lambda>r. cell_at r 0 \<noteq> Str ''u'') (drop 1 ([] :: sheet_table))" by simp
  have h5: "length (items ?d) \<le> 2" by (simp add: sample_invoice_def)
  have h6: "list_all (\<lambda>it. length it = 6) (items ?d)"
    by (simp add: sample_invoice_def sample_item_def list_all_iff)
  have h7: "(0::nat) < 6" by simp
  have "tax (stored_invoice (\<lambda>c. c) ''15/02/2024'' ?d) = Str ''8''"
    by (simp add: stored_invoice_def parse_7_5 toFixed_0_7_5)
  with invoice_roundtrip_aux [OF h1 h2 id_u_valid h4 h5 h6 h7, of "\<lambda>c. c"
      "Some (Str ''doc'', Str ''pdf'')"]
  show ?thesis by simp
qed

end
